theory Spec2Isabelle
  imports Complex_Main
begin

section \<open>Values\<close>

text \<open>
  The runtime values the evaluator handles are the JSON-shaped values of JavaScript, and
  the built-in functions a read can find on a prototype, each known by its name.  A
  \<^verbatim>\<open>number\<close> is a double: a finite value, held as the rational it is, \<^verbatim>\<open>NaN\<close> or one of
  the two infinities (the sign of zero is not kept).  Strings are lists of 8-bit
  characters, read as the code units below 256.  An object is a plain object: the list
  of its own enumerable properties in insertion order, with \<^verbatim>\<open>Object.prototype\<close> as its
  prototype.
\<close>

datatype jsnum = Finite rat | NaN | PosInf | NegInf

datatype jsval =
    VUndefined
  | VNull
  | VBool bool
  | VNum jsnum
  | VStr string
  | VArr "jsval list"
  | VObj "(string \<times> jsval) list"
  | VFunction string

text \<open>
  Built-ins of the language whose full definition lies outside the repository are
  parameters: \<^verbatim>\<open>Number(s)\<close> on a string, the string form of a number and of a built-in
  function, \<^verbatim>\<open>JSON.parse\<close> (\<open>None\<close> when it throws), the own properties of
  \<^verbatim>\<open>Array.prototype\<close>, and the properties of a built-in function (its own and those of
  \<^verbatim>\<open>Function.prototype\<close>).
\<close>

record builtins =
  stringToNumber :: "string \<Rightarrow> jsnum"
  numberToString :: "jsnum \<Rightarrow> string"
  functionToString :: "string \<Rightarrow> string"
  jsonParse :: "string \<Rightarrow> jsval option"
  arrayPrototypeProperty :: "string \<Rightarrow> jsval option"
  functionProperty :: "string \<Rightarrow> string \<Rightarrow> jsval option"

text \<open>\<^verbatim>\<open>a < b\<close> on numbers: false as soon as one side is \<^verbatim>\<open>NaN\<close>.\<close>

fun num_less :: "jsnum \<Rightarrow> jsnum \<Rightarrow> bool" where
  "num_less NaN _ = False"
| "num_less _ NaN = False"
| "num_less (Finite a) (Finite b) = (a < b)"
| "num_less (Finite a) PosInf = True"
| "num_less (Finite a) NegInf = False"
| "num_less PosInf _ = False"
| "num_less NegInf NegInf = False"
| "num_less NegInf _ = True"

text \<open>\<^verbatim>\<open>a <= b\<close> on numbers.\<close>

definition num_less_eq :: "jsnum \<Rightarrow> jsnum \<Rightarrow> bool" where
  "num_less_eq a b = (a \<noteq> NaN \<and> b \<noteq> NaN \<and> (a = b \<or> num_less a b))"

text \<open>\<^verbatim>\<open>Number.isFinite(v)\<close>: true for a finite number only, with no coercion.\<close>

fun numberIsFinite :: "jsval \<Rightarrow> bool" where
  "numberIsFinite (VNum (Finite _)) = True"
| "numberIsFinite _ = False"

text \<open>\<^verbatim>\<open>a === b\<close>.  Arrays and objects compare by identity; the two sides the evaluator
  compares never are the same object, so they are unequal.\<close>

fun strictEquals :: "jsval \<Rightarrow> jsval \<Rightarrow> bool" where
  "strictEquals VUndefined VUndefined = True"
| "strictEquals VNull VNull = True"
| "strictEquals (VBool a) (VBool b) = (a = b)"
| "strictEquals (VNum a) (VNum b) = (a = b \<and> a \<noteq> NaN)"
| "strictEquals (VStr a) (VStr b) = (a = b)"
| "strictEquals _ _ = False"

text \<open>\<^verbatim>\<open>ToBoolean\<close>, as used by \<^verbatim>\<open>||\<close> and \<^verbatim>\<open>!\<close>.\<close>

fun toBoolean :: "jsval \<Rightarrow> bool" where
  "toBoolean VUndefined = False"
| "toBoolean VNull = False"
| "toBoolean (VBool b) = b"
| "toBoolean (VNum n) = (n \<noteq> Finite 0 \<and> n \<noteq> NaN)"
| "toBoolean (VStr s) = (s \<noteq> [])"
| "toBoolean (VArr _) = True"
| "toBoolean (VObj _) = True"
| "toBoolean (VFunction _) = True"

text \<open>\<^verbatim>\<open>xs.join(sep)\<close> on strings.\<close>

fun joinStrings :: "string \<Rightarrow> string list \<Rightarrow> string" where
  "joinStrings sep [] = []"
| "joinStrings sep [x] = x"
| "joinStrings sep (x # y # ys) = x @ sep @ joinStrings sep (y # ys)"

text \<open>\<^verbatim>\<open>String(v)\<close>, and the element conversion of \<^verbatim>\<open>Array.prototype.join\<close>, which
  turns \<^verbatim>\<open>null\<close> and \<^verbatim>\<open>undefined\<close> into the empty string.\<close>

fun toString :: "builtins \<Rightarrow> jsval \<Rightarrow> string"
  and joinElement :: "builtins \<Rightarrow> jsval \<Rightarrow> string" where
  "toString b VUndefined = ''undefined''"
| "toString b VNull = ''null''"
| "toString b (VBool x) = (if x then ''true'' else ''false'')"
| "toString b (VNum n) = numberToString b n"
| "toString b (VStr s) = s"
| "toString b (VArr xs) = joinStrings '','' (map (joinElement b) xs)"
| "toString b (VObj kvs) = ''[object Object]''"
| "toString b (VFunction f) = functionToString b f"
| "joinElement b VUndefined = []"
| "joinElement b VNull = []"
| "joinElement b (VBool x) = toString b (VBool x)"
| "joinElement b (VNum n) = toString b (VNum n)"
| "joinElement b (VStr s) = toString b (VStr s)"
| "joinElement b (VArr xs) = toString b (VArr xs)"
| "joinElement b (VObj kvs) = toString b (VObj kvs)"
| "joinElement b (VFunction f) = toString b (VFunction f)"

text \<open>\<^verbatim>\<open>xs.join(sep)\<close> on values.\<close>

definition join :: "builtins \<Rightarrow> string \<Rightarrow> jsval list \<Rightarrow> string" where
  "join b sep xs = joinStrings sep (map (joinElement b) xs)"

text \<open>\<^verbatim>\<open>Number(v)\<close>.\<close>

fun toNumber :: "builtins \<Rightarrow> jsval \<Rightarrow> jsnum" where
  "toNumber b VUndefined = NaN"
| "toNumber b VNull = Finite 0"
| "toNumber b (VBool x) = Finite (if x then 1 else 0)"
| "toNumber b (VNum n) = n"
| "toNumber b (VStr s) = stringToNumber b s"
| "toNumber b (VArr xs) = stringToNumber b (toString b (VArr xs))"
| "toNumber b (VObj kvs) = stringToNumber b (toString b (VObj kvs))"
| "toNumber b (VFunction f) = stringToNumber b (toString b (VFunction f))"

section \<open>Expression trees (types.ts)\<close>

text \<open>
  One constructor for each \<^verbatim>\<open>type\<close> tag; the tags \<^verbatim>\<open>not\<close> and \<^verbatim>\<open>if\<close> are \<open>NotCond\<close> and
  \<open>IfExpr\<close>.  A comparand is declared \<^verbatim>\<open>string | number\<close> or \<^verbatim>\<open>number\<close>; the parser casts
  without a check, so it is a value here.  An \<^verbatim>\<open>IfBranch\<close> is the pair of its condition and
  its value.
\<close>

datatype condition =
    Truthy string
  | Equals string jsval
  | NotEquals string jsval
  | GreaterThan string jsval
  | LessThan string jsval
  | GreaterOrEqual string jsval
  | LessOrEqual string jsval
  | And "condition list"
  | Or "condition list"
  | NotCond condition

datatype expression =
    Literal jsval
  | Var string
  | Param string
  | Query string
  | Body string
  | Header string
  | Sql string "expression list"
  | IfExpr "(condition \<times> expression) list" "expression option"
  | Json jsval
  | Html string
  | Concat "expression list"

section \<open>String operations of the language\<close>

text \<open>White space as \<^verbatim>\<open>trim\<close> and \<^verbatim>\<open>\s\<close> see it, among the code units below 256.\<close>

definition isSpace :: "char \<Rightarrow> bool" where
  "isSpace c = (c \<in> set [CHR 0x09, CHR 0x0A, CHR 0x0B, CHR 0x0C, CHR 0x0D, CHR 0x20, CHR 0xA0])"

definition trim :: "string \<Rightarrow> string" where
  "trim s = rev (dropWhile isSpace (rev (dropWhile isSpace s)))"

definition startsWith :: "string \<Rightarrow> string \<Rightarrow> bool" where
  "startsWith s p = (take (length p) s = p)"

text \<open>\<^verbatim>\<open>s.indexOf(p)\<close>: the first position where \<open>p\<close> occurs, \<open>-1\<close> when it does not.\<close>

fun indexFrom :: "nat \<Rightarrow> string \<Rightarrow> string \<Rightarrow> int" where
  "indexFrom i [] p = (if p = [] then int i else - 1)"
| "indexFrom i (c # cs) p = (if startsWith (c # cs) p then int i else indexFrom (Suc i) cs p)"

definition indexOf :: "string \<Rightarrow> string \<Rightarrow> int" where
  "indexOf s p = indexFrom 0 s p"

definition includesStr :: "string \<Rightarrow> string \<Rightarrow> bool" where
  "includesStr s p = (indexOf s p \<noteq> - 1)"

text \<open>\<^verbatim>\<open>s.slice(start, end)\<close> and \<^verbatim>\<open>s.slice(start)\<close>: a negative index counts from the
  end, and both are clamped to the string.\<close>

definition slice :: "string \<Rightarrow> int \<Rightarrow> int \<Rightarrow> string" where
  "slice s start end =
     (let len = int (length s);
          from = (if start < 0 then max (len + start) 0 else min start len);
          to = (if end < 0 then max (len + end) 0 else min end len)
      in take (nat (to - from)) (drop (nat from) s))"

definition sliceFrom :: "string \<Rightarrow> int \<Rightarrow> string" where
  "sliceFrom s start = slice s start (int (length s))"

text \<open>\<^verbatim>\<open>toUpperCase\<close> and \<^verbatim>\<open>toLowerCase\<close> on the code units below 256.  The upper-case
  forms of U+00B5 and U+00FF and the lower-case forms above U+00FF lie outside this
  alphabet; these characters stay as they are.\<close>

definition upperChar :: "char \<Rightarrow> string" where
  "upperChar c =
     (let n = (of_char c :: nat)
      in if (97 \<le> n \<and> n \<le> 122) \<or> (224 \<le> n \<and> n \<le> 254 \<and> n \<noteq> 247) then [char_of (n - 32)]
         else if n = 223 then ''SS''
         else [c])"

definition lowerChar :: "char \<Rightarrow> char" where
  "lowerChar c =
     (let n = (of_char c :: nat)
      in if (65 \<le> n \<and> n \<le> 90) \<or> (192 \<le> n \<and> n \<le> 222 \<and> n \<noteq> 215) then char_of (n + 32)
         else c)"

definition toUpperCase :: "string \<Rightarrow> string" where
  "toUpperCase s = concat (map upperChar s)"

definition toLowerCase :: "string \<Rightarrow> string" where
  "toLowerCase s = map lowerChar s"

text \<open>Decimal digits and the number they write.\<close>

definition isDigit :: "char \<Rightarrow> bool" where
  "isDigit c = (c \<in> set ''0123456789'')"

definition digitsValue :: "string \<Rightarrow> int" where
  "digitsValue ds = foldl (\<lambda>a c. 10 * a + (of_char c - 48)) 0 ds"

section \<open>Objects used as maps\<close>

text \<open>
  The maps of a request context are ordinary objects, read with \<^verbatim>\<open>obj[name]\<close> and written
  with \<^verbatim>\<open>obj[name] = v\<close>.  A read that finds no own property goes on to the prototype; it
  can find there a data property or the accessor \<^verbatim>\<open>__proto__\<close>, whose getter returns the
  prototype of the object read and whose setter replaces it.  \<^verbatim>\<open>Object.prototype\<close> holds
  that accessor and eleven functions.
\<close>

datatype property = DataProperty jsval | ProtoAccessor

definition objectPrototypeProperty :: "string \<Rightarrow> property option" where
  "objectPrototypeProperty name =
     (if name = ''__proto__'' then Some ProtoAccessor
      else if name = ''constructor'' then Some (DataProperty (VFunction ''Object''))
      else if name \<in> set [''__defineGetter__'', ''__defineSetter__'', ''hasOwnProperty'',
                          ''__lookupGetter__'', ''__lookupSetter__'', ''isPrototypeOf'',
                          ''propertyIsEnumerable'', ''toString'', ''valueOf'', ''toLocaleString'']
      then Some (DataProperty (VFunction name))
      else None)"

text \<open>
  The prototype of \<^verbatim>\<open>ctx.variables\<close> is \<^verbatim>\<open>Object.prototype\<close> until an assignment to
  \<^verbatim>\<open>__proto__\<close> makes it \<^verbatim>\<open>null\<close> or an object value: a plain object, an array or a
  built-in function.  An array has its elements and its \<^verbatim>\<open>length\<close> as own properties,
  then \<^verbatim>\<open>Array.prototype\<close>; a function has the properties the parameter gives; all
  end in \<^verbatim>\<open>Object.prototype\<close>.  The read-only properties of a function and its
  accessors \<^verbatim>\<open>caller\<close> and \<^verbatim>\<open>arguments\<close>, which make an assignment or a read throw, are
  not described: the parameter gives values only.
\<close>

datatype prototype = ObjectPrototype | NullPrototype | ValuePrototype jsval

text \<open>An array index is written in decimal with no leading zero.\<close>

definition arrayIndex :: "string \<Rightarrow> int option" where
  "arrayIndex name =
     (if name \<noteq> [] \<and> list_all isDigit name \<and> (name = ''0'' \<or> hd name \<noteq> CHR ''0'')
      then Some (digitsValue name) else None)"

definition arrayPrototypeChain :: "builtins \<Rightarrow> string \<Rightarrow> property option" where
  "arrayPrototypeChain b name =
     (case arrayPrototypeProperty b name of
        Some v \<Rightarrow> Some (DataProperty v)
      | None \<Rightarrow> objectPrototypeProperty name)"

text \<open>The property a name has on a value and its prototypes.\<close>

fun valueProperty :: "builtins \<Rightarrow> jsval \<Rightarrow> string \<Rightarrow> property option" where
  "valueProperty b (VObj kvs) name =
     (case map_of kvs name of
        Some v \<Rightarrow> Some (DataProperty v)
      | None \<Rightarrow> objectPrototypeProperty name)"
| "valueProperty b (VArr xs) name =
     (if name = ''length'' then Some (DataProperty (VNum (Finite (of_nat (length xs)))))
      else
        (case arrayIndex name of
           Some i \<Rightarrow>
             if i < int (length xs) then Some (DataProperty (xs ! nat i))
             else arrayPrototypeChain b name
         | None \<Rightarrow> arrayPrototypeChain b name))"
| "valueProperty b (VFunction f) name =
     (case functionProperty b f name of
        Some v \<Rightarrow> Some (DataProperty v)
      | None \<Rightarrow> objectPrototypeProperty name)"
| "valueProperty b _ name = None"

fun prototypeProperty :: "builtins \<Rightarrow> prototype \<Rightarrow> string \<Rightarrow> property option" where
  "prototypeProperty b ObjectPrototype name = objectPrototypeProperty name"
| "prototypeProperty b NullPrototype name = None"
| "prototypeProperty b (ValuePrototype v) name = valueProperty b v name"

text \<open>The prototype as the getter returns it.  \<^verbatim>\<open>Object.prototype\<close> is an object with no
  enumerable key, and stands here as the empty object.\<close>

fun prototypeValue :: "prototype \<Rightarrow> jsval" where
  "prototypeValue ObjectPrototype = VObj []"
| "prototypeValue NullPrototype = VNull"
| "prototypeValue (ValuePrototype v) = v"

text \<open>\<^verbatim>\<open>obj[name]\<close> on an object with the own properties \<open>own\<close> and the prototype
  \<open>proto\<close>.\<close>

definition getProperty ::
  "builtins \<Rightarrow> (string \<rightharpoonup> jsval) \<Rightarrow> prototype \<Rightarrow> string \<Rightarrow> jsval" where
  "getProperty b own proto name =
     (case own name of
        Some v \<Rightarrow> v
      | None \<Rightarrow>
          (case prototypeProperty b proto name of
             None \<Rightarrow> VUndefined
           | Some (DataProperty v) \<Rightarrow> v
           | Some ProtoAccessor \<Rightarrow> prototypeValue proto))"

text \<open>
  \<^verbatim>\<open>obj[name] = v\<close>: an own property is overwritten; where the prototype has the accessor,
  its setter makes an object value or \<^verbatim>\<open>null\<close> the new prototype and ignores any other
  value, and no own property appears; otherwise an own property is created.
\<close>

definition setProperty ::
  "builtins \<Rightarrow> (string \<rightharpoonup> jsval) \<Rightarrow> prototype \<Rightarrow> string \<Rightarrow> jsval \<Rightarrow>
     (string \<rightharpoonup> jsval) \<times> prototype" where
  "setProperty b own proto name v =
     (case own name of
        Some _ \<Rightarrow> (own(name \<mapsto> v), proto)
      | None \<Rightarrow>
          (case prototypeProperty b proto name of
             Some ProtoAccessor \<Rightarrow>
               (case v of
                  VObj _ \<Rightarrow> (own, ValuePrototype v)
                | VArr _ \<Rightarrow> (own, ValuePrototype v)
                | VFunction _ \<Rightarrow> (own, ValuePrototype v)
                | VNull \<Rightarrow> (own, NullPrototype)
                | _ \<Rightarrow> (own, proto))
           | _ \<Rightarrow> (own(name \<mapsto> v), proto)))"

text \<open>
  \<^verbatim>\<open>RequestContext\<close>.  Each field holds the own properties of its object.  The objects of
  \<^verbatim>\<open>params\<close>, \<^verbatim>\<open>query\<close>, \<^verbatim>\<open>body\<close> and \<^verbatim>\<open>headers\<close> keep \<^verbatim>\<open>Object.prototype\<close>; the
  prototype of \<^verbatim>\<open>variables\<close> is kept beside its own properties.
\<close>

record requestContext =
  params :: "string \<rightharpoonup> string"
  query :: "string \<rightharpoonup> string"
  body :: "string \<rightharpoonup> jsval"
  headers :: "string \<rightharpoonup> string"
  variables :: "string \<rightharpoonup> jsval"
  variablesPrototype :: prototype

text \<open>\<^verbatim>\<open>ctx.variables[name]\<close>.\<close>

definition getVariable :: "builtins \<Rightarrow> requestContext \<Rightarrow> string \<Rightarrow> jsval" where
  "getVariable b c name = getProperty b (variables c) (variablesPrototype c) name"

text \<open>\<^verbatim>\<open>ctx.variables[name] = v\<close>.\<close>

definition setVariable :: "builtins \<Rightarrow> requestContext \<Rightarrow> string \<Rightarrow> jsval \<Rightarrow> requestContext" where
  "setVariable b c name v =
     (case setProperty b (variables c) (variablesPrototype c) name v of
        (own, proto) \<Rightarrow> c\<lparr>variables := own, variablesPrototype := proto\<rparr>)"

text \<open>\<^verbatim>\<open>obj[k]\<close> on the objects that keep \<^verbatim>\<open>Object.prototype\<close>: one of values, one of
  strings.\<close>

definition inheritedValue :: "string \<Rightarrow> jsval" where
  "inheritedValue k =
     (case objectPrototypeProperty k of
        None \<Rightarrow> VUndefined
      | Some (DataProperty v) \<Rightarrow> v
      | Some ProtoAccessor \<Rightarrow> prototypeValue ObjectPrototype)"

definition getValue :: "(string \<rightharpoonup> jsval) \<Rightarrow> string \<Rightarrow> jsval" where
  "getValue m k = (case m k of None \<Rightarrow> inheritedValue k | Some v \<Rightarrow> v)"

definition getString :: "(string \<rightharpoonup> string) \<Rightarrow> string \<Rightarrow> jsval" where
  "getString m k = (case m k of None \<Rightarrow> inheritedValue k | Some v \<Rightarrow> VStr v)"

text \<open>\<^verbatim>\<open>normalized[key] = text\<close> on such an object: the setter of \<^verbatim>\<open>__proto__\<close> ignores a
  string, so that key is never created.\<close>

definition setString :: "(string \<rightharpoonup> string) \<Rightarrow> string \<Rightarrow> string \<Rightarrow> (string \<rightharpoonup> string)" where
  "setString m key v =
     (case m key of
        Some _ \<Rightarrow> m(key \<mapsto> v)
      | None \<Rightarrow>
          (case objectPrototypeProperty key of
             Some ProtoAccessor \<Rightarrow> m
           | _ \<Rightarrow> m(key \<mapsto> v)))"

section \<open>The query executor\<close>

text \<open>
  The module-level \<^verbatim>\<open>db\<close> is \<^verbatim>\<open>null\<close> until \<^verbatim>\<open>initDatabase\<close> has run.  The database
  library is outside the repository: its three statement methods are parameters.  Each
  one takes the stored data \<open>'d\<close>, the statement text and the bound arguments, returns
  its result or what it throws, and the stored data afterwards.  \<^verbatim>\<open>prepare\<close> only
  compiles the text, and may throw.
\<close>

datatype thrown = ThrownError string | ThrownOther

record runResult =
  changes :: jsval
  lastInsertRowid :: jsval

record 'd database =
  prepare :: "'d \<Rightarrow> string \<Rightarrow> thrown option"
  stmt_get :: "'d \<Rightarrow> string \<Rightarrow> jsval list \<Rightarrow> (thrown + jsval) \<times> 'd"
  stmt_all :: "'d \<Rightarrow> string \<Rightarrow> jsval list \<Rightarrow> (thrown + jsval) \<times> 'd"
  stmt_run :: "'d \<Rightarrow> string \<Rightarrow> jsval list \<Rightarrow> (thrown + runResult) \<times> 'd"

text \<open>What evaluation can touch: the context object it is handed, and the database.\<close>

record 'd state =
  ctx :: requestContext
  db :: "'d option"

section \<open>Evaluator (evaluator.ts)\<close>

text \<open>The \<^verbatim>\<open>catch\<close> clause of \<^verbatim>\<open>evaluateSql\<close>.\<close>

fun catchError :: "thrown \<Rightarrow> jsval" where
  "catchError (ThrownError message) = VObj [(''error'', VStr message)]"
| "catchError ThrownOther = VObj [(''error'', VStr ''Unknown error'')]"

text \<open>The object \<^verbatim>\<open>stmt.run\<close> returns.\<close>

definition runInfo :: "runResult \<Rightarrow> jsval" where
  "runInfo r = VObj [(''changes'', changes r), (''lastInsertRowid'', lastInsertRowid r)]"

text \<open>
  The \<^verbatim>\<open>try\<close> block of \<^verbatim>\<open>evaluateSql\<close>, with its \<^verbatim>\<open>catch\<close>: \<open>d\<close> is the database,
  \<open>nargs\<close> is \<^verbatim>\<open>args.length\<close>.  It returns the value and the database afterwards.
\<close>

definition evaluateSqlTry ::
  "'d database \<Rightarrow> string \<Rightarrow> nat \<Rightarrow> jsval list \<Rightarrow> 'd \<Rightarrow> jsval \<times> 'd" where
  "evaluateSqlTry ex q nargs evaluatedArgs d =
     (case prepare ex d q of
        Some t \<Rightarrow> (catchError t, d)
      | None \<Rightarrow>
          if startsWith (toUpperCase (trim q)) ''SELECT'' then
            if includesStr q ''LIMIT 1'' \<or> nargs = 1 then
              (case stmt_get ex d q evaluatedArgs of
                 (Inl t, d') \<Rightarrow> (catchError t, d')
               | (Inr result, d') \<Rightarrow> (if toBoolean result then result else VNull, d'))
            else
              (case stmt_all ex d q evaluatedArgs of
                 (Inl t, d') \<Rightarrow> (catchError t, d')
               | (Inr rows, d') \<Rightarrow> (rows, d'))
          else if startsWith (toUpperCase (trim q)) ''INSERT'' then
            (case stmt_run ex d q evaluatedArgs of
               (Inl t, d') \<Rightarrow> (catchError t, d')
             | (Inr result, d') \<Rightarrow>
                 (VObj [(''id'', lastInsertRowid result), (''changes'', changes result)], d'))
          else if startsWith (toUpperCase (trim q)) ''UPDATE''
                  \<or> startsWith (toUpperCase (trim q)) ''DELETE'' then
            (case stmt_run ex d q evaluatedArgs of
               (Inl t, d') \<Rightarrow> (catchError t, d')
             | (Inr result, d') \<Rightarrow> (VObj [(''changes'', changes result)], d'))
          else
            (case stmt_run ex d q evaluatedArgs of
               (Inl t, d') \<Rightarrow> (catchError t, d')
             | (Inr result, d') \<Rightarrow> (runInfo result, d')))"

text \<open>\<^verbatim>\<open>evaluateCondition\<close> only reads \<^verbatim>\<open>ctx.variables\<close>.  A built-in function passes
  every test of the truthy case and reaches its last \<^verbatim>\<open>return true\<close>.\<close>

fun evaluateCondition :: "builtins \<Rightarrow> condition \<Rightarrow> requestContext \<Rightarrow> bool" where
  "evaluateCondition b (Truthy varName) c =
     (case getVariable b c varName of
        VNull \<Rightarrow> False
      | VUndefined \<Rightarrow> False
      | VBool x \<Rightarrow> x
      | VNum n \<Rightarrow> \<not> strictEquals (VNum n) (VNum (Finite 0))
      | VStr s \<Rightarrow> length s > 0
      | VArr xs \<Rightarrow> length xs > 0
      | VObj kvs \<Rightarrow> length (map fst kvs) > 0
      | VFunction f \<Rightarrow> True)"
| "evaluateCondition b (Equals varName v) c = strictEquals (getVariable b c varName) v"
| "evaluateCondition b (NotEquals varName v) c =
     (\<not> strictEquals (getVariable b c varName) v)"
| "evaluateCondition b (GreaterThan varName v) c =
     (case getVariable b c varName of
        VNum n \<Rightarrow> num_less (toNumber b v) n
      | _ \<Rightarrow> False)"
| "evaluateCondition b (LessThan varName v) c =
     (case getVariable b c varName of
        VNum n \<Rightarrow> num_less n (toNumber b v)
      | _ \<Rightarrow> False)"
| "evaluateCondition b (GreaterOrEqual varName v) c =
     (case getVariable b c varName of
        VNum n \<Rightarrow> num_less_eq (toNumber b v) n
      | _ \<Rightarrow> False)"
| "evaluateCondition b (LessOrEqual varName v) c =
     (case getVariable b c varName of
        VNum n \<Rightarrow> num_less_eq n (toNumber b v)
      | _ \<Rightarrow> False)"
| "evaluateCondition b (And conditions) c = list_all (\<lambda>x. evaluateCondition b x c) conditions"
| "evaluateCondition b (Or conditions) c = list_ex (\<lambda>x. evaluateCondition b x c) conditions"
| "evaluateCondition b (NotCond x) c = (\<not> evaluateCondition b x c)"

text \<open>
  \<^verbatim>\<open>evaluateExpression\<close>, with \<^verbatim>\<open>evaluateSql\<close> and \<^verbatim>\<open>evaluateIf\<close>.  \<open>evaluateAll\<close> is
  \<^verbatim>\<open>xs.map((x) => evaluateExpression(x, ctx))\<close>, left to right.  After the arguments of a
  statement are evaluated the \<^verbatim>\<open>db\<close> that was tested at entry is still set; were it
  \<^verbatim>\<open>null\<close>, \<^verbatim>\<open>db.prepare\<close> would throw a \<^verbatim>\<open>TypeError\<close> inside the \<^verbatim>\<open>try\<close>.
\<close>

function evaluateExpression ::
    "'d database \<Rightarrow> builtins \<Rightarrow> expression \<Rightarrow> 'd state \<Rightarrow> jsval \<times> 'd state"
  and evaluateAll ::
    "'d database \<Rightarrow> builtins \<Rightarrow> expression list \<Rightarrow> 'd state \<Rightarrow> jsval list \<times> 'd state"
  and evaluateSql ::
    "'d database \<Rightarrow> builtins \<Rightarrow> string \<Rightarrow> expression list \<Rightarrow> 'd state \<Rightarrow> jsval \<times> 'd state"
  and evaluateIf ::
    "'d database \<Rightarrow> builtins \<Rightarrow> (condition \<times> expression) list \<Rightarrow> expression option \<Rightarrow>
       'd state \<Rightarrow> jsval \<times> 'd state"
where
  "evaluateExpression ex b (Literal v) s = (v, s)"
| "evaluateExpression ex b (Var name) s = (getVariable b (ctx s) name, s)"
| "evaluateExpression ex b (Param paramName) s = (getString (params (ctx s)) paramName, s)"
| "evaluateExpression ex b (Query paramName) s = (getString (query (ctx s)) paramName, s)"
| "evaluateExpression ex b (Body fieldName) s = (getValue (body (ctx s)) fieldName, s)"
| "evaluateExpression ex b (Header headerName) s =
     (getString (headers (ctx s)) (toLowerCase headerName), s)"
| "evaluateExpression ex b (Sql q args) s = evaluateSql ex b q args s"
| "evaluateExpression ex b (IfExpr branches elseValue) s = evaluateIf ex b branches elseValue s"
| "evaluateExpression ex b (Json v) s = (v, s)"
| "evaluateExpression ex b (Html v) s = (VStr v, s)"
| "evaluateExpression ex b (Concat parts) s =
     (case evaluateAll ex b parts s of (vs, s') \<Rightarrow> (VStr (join b [] vs), s'))"
| "evaluateAll ex b [] s = ([], s)"
| "evaluateAll ex b (x # xs) s =
     (case evaluateExpression ex b x s of
        (v, s') \<Rightarrow> (case evaluateAll ex b xs s' of (vs, s'') \<Rightarrow> (v # vs, s'')))"
| "evaluateSql ex b q args s =
     (case db s of
        None \<Rightarrow> (VObj [(''error'', VStr ''Database not configured'')], s)
      | Some _ \<Rightarrow>
          (case evaluateAll ex b args s of
             (evaluatedArgs, s') \<Rightarrow>
               (case db s' of
                  None \<Rightarrow>
                    (VObj [(''error'',
                       VStr ''Cannot read properties of null (reading 'prepare')'')], s')
                | Some d \<Rightarrow>
                    (case evaluateSqlTry ex q (length args) evaluatedArgs d of
                       (v, d') \<Rightarrow> (v, s'\<lparr>db := Some d'\<rparr>)))))"
| "evaluateIf ex b [] elseValue s =
     (case elseValue of
        Some e \<Rightarrow> evaluateExpression ex b e s
      | None \<Rightarrow> (VNull, s))"
| "evaluateIf ex b (branch # rest) elseValue s =
     (if evaluateCondition b (fst branch) (ctx s) then evaluateExpression ex b (snd branch) s
      else evaluateIf ex b rest elseValue s)"
  by pat_completeness auto

termination
  by (relation "measure (\<lambda>x. case x of
        Inl (Inl (ex, b, e, s)) \<Rightarrow> 3 * size e
      | Inl (Inr (ex, b, xs, s)) \<Rightarrow> 3 * size_list size xs + 1
      | Inr (Inl (ex, b, q, args, s)) \<Rightarrow> 3 * size_list size args + 2
      | Inr (Inr (ex, b, branches, elseValue, s)) \<Rightarrow>
          3 * (size_list (size_prod (\<lambda>_. 0) size) branches + size_option size elseValue) + 1)")
    auto

section \<open>Route handlers (compiler.ts)\<close>

datatype httpMethod = GET | POST | PUT | PATCH | DELETE | HEAD | OPTIONS

datatype statusValue = StatusLiteral jsval | StatusVar expression | StatusIf expression

datatype returnType = ReturnJson | ReturnHtml

text \<open>A \<^verbatim>\<open>VariableAssignment\<close> is the pair of its name and its expression; a
  \<^verbatim>\<open>ReturnValue\<close> the pair of its type and its expression.\<close>

record routeRule =
  route_path :: string
  route_method :: httpMethod
  route_variables :: "(string \<times> expression) list"
  route_status :: "statusValue option"
  route_return :: "returnType \<times> expression"

text \<open>What the handler reads of the inbound request: the entries of \<^verbatim>\<open>req.params\<close>,
  \<^verbatim>\<open>req.query\<close> and \<^verbatim>\<open>req.headers\<close>, and \<^verbatim>\<open>req.body\<close>.\<close>

record request =
  req_params :: "(string \<times> jsval) list"
  req_query :: "(string \<times> jsval) list"
  req_body :: jsval
  req_headers :: "(string \<times> jsval) list"

text \<open>What the handler does to the response: \<^verbatim>\<open>res.status(n)\<close> if it is called, and
  the body it emits with \<^verbatim>\<open>res.json\<close> or \<^verbatim>\<open>res.send\<close>.\<close>

datatype emission = JsonBody jsval | SendBody string

record response =
  res_status :: "jsval option"
  res_body :: emission

definition normalizeQuery :: "builtins \<Rightarrow> (string \<times> jsval) list \<Rightarrow> (string \<rightharpoonup> string)" where
  "normalizeQuery b entries =
     foldl (\<lambda>normalized (key, v).
              case v of
                VArr items \<Rightarrow> setString normalized key (joinStrings '','' (map (toString b) items))
              | VUndefined \<Rightarrow> setString normalized key []
              | _ \<Rightarrow> setString normalized key (toString b v))
       Map.empty entries"

definition normalizeParams :: "builtins \<Rightarrow> (string \<times> jsval) list \<Rightarrow> (string \<rightharpoonup> string)" where
  "normalizeParams b entries =
     foldl (\<lambda>normalized (key, v).
              case v of
                VArr items \<Rightarrow> setString normalized key (joinStrings '','' (map (toString b) items))
              | _ \<Rightarrow> setString normalized key (toString b v))
       Map.empty entries"

definition normalizeHeaders :: "builtins \<Rightarrow> (string \<times> jsval) list \<Rightarrow> (string \<rightharpoonup> string)" where
  "normalizeHeaders b entries =
     foldl (\<lambda>normalized (key, v).
              case v of
                VArr items \<Rightarrow> setString normalized (toLowerCase key) (join b '','' items)
              | VUndefined \<Rightarrow> setString normalized (toLowerCase key) []
              | _ \<Rightarrow> setString normalized (toLowerCase key) (toString b v))
       Map.empty entries"

definition normalizeBody :: "jsval \<Rightarrow> (string \<rightharpoonup> jsval)" where
  "normalizeBody v = (case v of VObj kvs \<Rightarrow> map_of kvs | _ \<Rightarrow> Map.empty)"

text \<open>The loop over \<^verbatim>\<open>route.variables\<close>:
  \<^verbatim>\<open>ctx.variables[variable.name] = evaluateExpression(variable.value, ctx)\<close>.\<close>

fun assignVariables ::
  "'d database \<Rightarrow> builtins \<Rightarrow> (string \<times> expression) list \<Rightarrow> 'd state \<Rightarrow> 'd state" where
  "assignVariables ex b [] s = s"
| "assignVariables ex b (variable # rest) s =
     (case evaluateExpression ex b (snd variable) s of
        (v, s') \<Rightarrow>
          assignVariables ex b rest (s'\<lparr>ctx := setVariable b (ctx s') (fst variable) v\<rparr>))"

text \<open>The \<^verbatim>\<open>if (route.status)\<close> block: the argument of \<^verbatim>\<open>res.status\<close> when it is called.\<close>

definition resolveStatus ::
  "'d database \<Rightarrow> builtins \<Rightarrow> statusValue option \<Rightarrow> 'd state \<Rightarrow> jsval option \<times> 'd state" where
  "resolveStatus ex b status s =
     (case status of
        None \<Rightarrow> (None, s)
      | Some sv \<Rightarrow>
          (case (case sv of
                   StatusLiteral v \<Rightarrow> (v, s)
                 | StatusVar e \<Rightarrow>
                     (case evaluateExpression ex b e s of (r, s') \<Rightarrow> (VNum (toNumber b r), s'))
                 | StatusIf e \<Rightarrow>
                     (case evaluateExpression ex b e s of (r, s') \<Rightarrow> (VNum (toNumber b r), s')))
           of (statusValue, s') \<Rightarrow>
                (if numberIsFinite statusValue then Some statusValue else None, s')))"

text \<open>The context a handler builds from the request, with the module's \<^verbatim>\<open>db\<close>.\<close>

definition requestState :: "builtins \<Rightarrow> request \<Rightarrow> 'd option \<Rightarrow> 'd state" where
  "requestState b req d =
     \<lparr>ctx = \<lparr>params = normalizeParams b (req_params req),
             query = normalizeQuery b (req_query req),
             body = normalizeBody (req_body req),
             headers = normalizeHeaders b (req_headers req),
             variables = Map.empty,
             variablesPrototype = ObjectPrototype\<rparr>,
      db = d\<rparr>"

text \<open>\<^verbatim>\<open>createHandler(route)(req, res)\<close>, started with the module's \<^verbatim>\<open>db\<close>: the response,
  and the context and database at the end.\<close>

definition createHandler ::
  "'d database \<Rightarrow> builtins \<Rightarrow> routeRule \<Rightarrow> request \<Rightarrow> 'd option \<Rightarrow> response \<times> 'd state" where
  "createHandler ex b route req d =
     (let s1 = assignVariables ex b (route_variables route) (requestState b req d)
      in case resolveStatus ex b (route_status route) s1 of
           (status, s2) \<Rightarrow>
             (case evaluateExpression ex b (snd (route_return route)) s2 of
                (result, s3) \<Rightarrow>
                  (\<lparr>res_status = status,
                    res_body =
                      (case fst (route_return route) of
                         ReturnJson \<Rightarrow> JsonBody result
                       | ReturnHtml \<Rightarrow>
                           SendBody (case result of VStr x \<Rightarrow> x | _ \<Rightarrow> toString b result))\<rparr>,
                   s3)))"

section \<open>Parser (parser.ts)\<close>

subsection \<open>Character classes and regular expressions\<close>

definition isQuote :: "char \<Rightarrow> bool" where
  "isQuote c = (c = CHR 0x22 \<or> c = CHR 0x27)"

text \<open>The class \<^verbatim>\<open>[\w-]\<close>.\<close>

definition isNameChar :: "char \<Rightarrow> bool" where
  "isNameChar c =
     (c \<in> set ''abcdefghijklmnopqrstuvwxyzABCDEFGHIJKLMNOPQRSTUVWXYZ0123456789_-'')"

text \<open>What \<^verbatim>\<open>.\<close> does not match when the \<^verbatim>\<open>s\<close> flag is off.\<close>

definition isLineTerminator :: "char \<Rightarrow> bool" where
  "isLineTerminator c = (c = CHR 0x0A \<or> c = CHR 0x0D)"

text \<open>\<^verbatim>\<open>value.trim().replace(/^["']|["']$/g, '')\<close>: one quote is removed at the start
  and one at the end, each if it is there.\<close>

definition parseStringValue :: "string \<Rightarrow> string" where
  "parseStringValue v =
     (let t = trim v;
          a = (case t of [] \<Rightarrow> [] | c # r \<Rightarrow> if isQuote c then r else t)
      in if a \<noteq> [] \<and> isQuote (last a) then butlast a else a)"

text \<open>\<^verbatim>\<open>/^-?\d+(\.\d+)?$/.test(s)\<close>.\<close>

definition isNumericLiteral :: "string \<Rightarrow> bool" where
  "isNumericLiteral s =
     (let r = (if startsWith s ''-'' then drop 1 s else s);
          intPart = takeWhile isDigit r
      in intPart \<noteq> [] \<and>
         (case dropWhile isDigit r of
            [] \<Rightarrow> True
          | c # fraction \<Rightarrow> c = CHR ''.'' \<and> fraction \<noteq> [] \<and> list_all isDigit fraction))"

text \<open>
  The double nearest to a rational, ties to the even significand, as the language turns
  a mathematical value into a number: the spacing of the doubles around a value of
  binary exponent \<open>e\<close> is \<open>2 ^ (e - 52)\<close>, and \<open>2 ^ (- 1074)\<close> below \<open>2 ^ (- 1022)\<close>; a
  result of \<open>2 ^ 1024\<close> or more is an infinity.
\<close>

function bitLength :: "int \<Rightarrow> nat" where
  "bitLength n = (if n \<le> 0 then 0 else Suc (bitLength (n div 2)))"
  by pat_completeness auto

termination
  by (relation "measure nat") auto

declare bitLength.simps [simp del]

text \<open>The binary exponent of a positive rational: \<open>2 ^ e \<le> a < 2 ^ (e + 1)\<close>.\<close>

definition floorLog2 :: "rat \<Rightarrow> int" where
  "floorLog2 a =
     (if 1 \<le> a then int (bitLength \<lfloor>a\<rfloor>) - 1
      else - int (bitLength (\<lceil>1 / a\<rceil> - 1)))"

definition power2 :: "int \<Rightarrow> rat" where
  "power2 e = (if 0 \<le> e then 2 ^ nat e else 1 / 2 ^ nat (- e))"

definition roundHalfEven :: "rat \<Rightarrow> int" where
  "roundHalfEven x =
     (let f = \<lfloor>x\<rfloor>; r = x - of_int f
      in if r < 1 / 2 then f
         else if 1 / 2 < r then f + 1
         else if even f then f else f + 1)"

definition toDouble :: "rat \<Rightarrow> jsnum" where
  "toDouble q =
     (if q = 0 then Finite 0
      else
        (let a = \<bar>q\<bar>;
             ulp = power2 (max (floorLog2 a) (- 1022) - 52);
             r = of_int (roundHalfEven (a / ulp)) * ulp
         in if power2 1024 \<le> r then (if q < 0 then NegInf else PosInf)
            else Finite (if q < 0 then - r else r)))"

text \<open>The rationals that are doubles: zero, and the multiples of the spacing at their own
  exponent below \<open>2 ^ 1024\<close>.\<close>

definition isDouble :: "rat \<Rightarrow> bool" where
  "isDouble q =
     (q = 0 \<or>
      (let a = \<bar>q\<bar>; ulp = power2 (max (floorLog2 a) (- 1022) - 52)
       in of_int \<lfloor>a / ulp\<rfloor> = a / ulp \<and> a < power2 1024))"

text \<open>The decimal a text denotes: an optional minus sign, digits, and an optional
  fraction; what follows is ignored.\<close>

definition decimalValue :: "string \<Rightarrow> rat" where
  "decimalValue s =
     (let negative = startsWith s ''-'';
          r = (if negative then drop 1 s else s);
          intPart = takeWhile isDigit r;
          fraction = (case dropWhile isDigit r of
                        [] \<Rightarrow> []
                      | c # f \<Rightarrow> if c = CHR ''.'' then takeWhile isDigit f else []);
          m = (of_int (digitsValue intPart) + of_int (digitsValue fraction) / 10 ^ length fraction :: rat)
      in if negative then - m else m)"

text \<open>\<^verbatim>\<open>parseFloat\<close> on decimal text without exponent, the only text the parser hands
  it: the double nearest to the decimal, and \<^verbatim>\<open>NaN\<close> where no digit stands.\<close>

definition parseFloat :: "string \<Rightarrow> jsnum" where
  "parseFloat s =
     (let r = (if startsWith s ''-'' then drop 1 s else s);
          intPart = takeWhile isDigit r;
          fraction = (case dropWhile isDigit r of
                        [] \<Rightarrow> []
                      | c # f \<Rightarrow> if c = CHR ''.'' then takeWhile isDigit f else [])
      in if intPart = [] \<and> fraction = [] then NaN else toDouble (decimalValue s))"

text \<open>
  The tail \<^verbatim>\<open>\s*(?:,\s*(.+))?\s*\)$\<close> of the pattern of \<^verbatim>\<open>parseSqlExpression\<close>, with
  the \<^verbatim>\<open>s\<close> flag: \<open>Some g\<close> when it matches, \<open>g\<close> being the second group if it took
  part.  The greedy \<^verbatim>\<open>.+\<close> runs to the last character, which must be the closing
  parenthesis; when only white space is left for it, the \<^verbatim>\<open>\s*\<close> before it gives one
  character back.
\<close>

definition sqlTail :: "string \<Rightarrow> string option option" where
  "sqlTail r =
     (case dropWhile isSpace r of
        [] \<Rightarrow> None
      | c # r2 \<Rightarrow>
          if c = CHR '','' \<and> r2 \<noteq> [] \<and> last r2 = CHR '')'' \<and> butlast r2 \<noteq> [] then
            (let m = butlast r2; m' = dropWhile isSpace m
             in Some (Some (if m' \<noteq> [] then m' else [last m])))
          else if c = CHR '')'' \<and> r2 = [] then Some None
          else None)"

text \<open>The lazy \<^verbatim>\<open>(.+?)\<close> followed by a quote: the shortest non-empty text after which
  a quote stands and the tail matches.\<close>

fun sqlLazy :: "string \<Rightarrow> string \<Rightarrow> (string \<times> string option) option" where
  "sqlLazy acc [] = None"
| "sqlLazy acc (c # cs) =
     (if acc \<noteq> [] \<and> isQuote c then
        (case sqlTail cs of
           Some g \<Rightarrow> Some (acc, g)
         | None \<Rightarrow> sqlLazy (acc @ [c]) cs)
      else sqlLazy (acc @ [c]) cs)"

text \<open>\<^verbatim>\<open>value.match(/^sql\s*\(\s*["'](.+?)["']\s*(?:,\s*(.+))?\s*\)$/s)\<close>: the two groups.\<close>

definition sqlMatch :: "string \<Rightarrow> (string \<times> string option) option" where
  "sqlMatch v =
     (if startsWith v ''sql'' then
        (case dropWhile isSpace (drop 3 v) of
           [] \<Rightarrow> None
         | c # r \<Rightarrow>
             if c = CHR ''('' then
               (case dropWhile isSpace r of
                  [] \<Rightarrow> None
                | q # r' \<Rightarrow> if isQuote q then sqlLazy [] r' else None)
             else None)
      else None)"

text \<open>The end \<^verbatim>\<open>\s*(.+)$\<close> of the comparison pattern: the text of the last group.\<close>

definition matchRest :: "string \<Rightarrow> string option" where
  "matchRest r =
     (let x = dropWhile isSpace r
      in if x \<noteq> [] then (if list_ex isLineTerminator x then None else Some x)
         else if r \<noteq> [] \<and> \<not> isLineTerminator (last r) then Some [last r]
         else None)"

text \<open>The alternatives \<^verbatim>\<open>(=|!=|>=|<=|>|<)\<close>, tried in this order; one whose rest does
  not match gives way to the next.\<close>

fun matchOperator :: "string list \<Rightarrow> string \<Rightarrow> (string \<times> string) option" where
  "matchOperator [] r = None"
| "matchOperator (oper # opers) r =
     (if startsWith r oper then
        (case matchRest (drop (length oper) r) of
           Some v \<Rightarrow> Some (oper, v)
         | None \<Rightarrow> matchOperator opers r)
      else matchOperator opers r)"

text \<open>\<^verbatim>\<open>s.match(/^(--[\w-]+)\s*(=|!=|>=|<=|>|<)\s*(.+)$/)\<close>: the three groups.\<close>

definition compMatch :: "string \<Rightarrow> (string \<times> string \<times> string) option" where
  "compMatch s =
     (if startsWith s ''--'' \<and> takeWhile isNameChar (drop 2 s) \<noteq> [] then
        (case matchOperator [''='', ''!='', ''>='', ''<='', ''>'', ''<'']
                (dropWhile isSpace (dropWhile isNameChar (drop 2 s))) of
           None \<Rightarrow> None
         | Some (oper, v) \<Rightarrow> Some (''--'' @ takeWhile isNameChar (drop 2 s), oper, v))
      else None)"

text \<open>\<^verbatim>\<open>s.match(/^--([\w-]+)$/)\<close>: the group.\<close>

definition varMatch :: "string \<Rightarrow> string option" where
  "varMatch s =
     (if startsWith s ''--'' \<and> drop 2 s \<noteq> [] \<and> list_all isNameChar (drop 2 s)
      then Some (drop 2 s) else None)"

text \<open>\<^verbatim>\<open>s.replace(/^--/, '')\<close> and \<^verbatim>\<open>s.replace(/^:/, '')\<close>.\<close>

definition stripPrefix :: "string \<Rightarrow> string \<Rightarrow> string" where
  "stripPrefix p s = (if startsWith s p then drop (length p) s else s)"

subsection \<open>Scanning loops\<close>

text \<open>The loop of \<^verbatim>\<open>extractFunctionContent\<close> from index \<open>i\<close> on: the index of the
  parenthesis that brings the depth to zero.\<close>

fun findClose :: "string \<Rightarrow> int \<Rightarrow> int \<Rightarrow> int option" where
  "findClose [] i depth = None"
| "findClose (c # cs) i depth =
     (if c = CHR ''('' then findClose cs (i + 1) (depth + 1)
      else if c = CHR '')'' then
        (if depth - 1 = 0 then Some i else findClose cs (i + 1) (depth - 1))
      else findClose cs (i + 1) depth)"

definition extractFunctionContent :: "string \<Rightarrow> string \<Rightarrow> string" where
  "extractFunctionContent v funcName =
     (let start = indexOf v (funcName @ ''('') + int (length funcName) + 1;
          end = (case findClose (drop (nat start) v) start 1 of None \<Rightarrow> start | Some i \<Rightarrow> i)
      in slice v start end)"

text \<open>
  The extraction as the specification words it, for comparison: the same scan, made
  quote-aware with the in-string flag and the opening quote character that the other
  loops of the parser keep.
\<close>

fun findCloseQuoted :: "string \<Rightarrow> int \<Rightarrow> int \<Rightarrow> bool \<Rightarrow> string \<Rightarrow> int option" where
  "findCloseQuoted [] i depth inString stringChar = None"
| "findCloseQuoted (c # cs) i depth inString stringChar =
     (if isQuote c \<and> \<not> inString then findCloseQuoted cs (i + 1) depth True [c]
      else if [c] = stringChar \<and> inString then
        findCloseQuoted cs (i + 1) depth False stringChar
      else if \<not> inString then
        (if c = CHR ''('' then findCloseQuoted cs (i + 1) (depth + 1) inString stringChar
         else if c = CHR '')'' then
           (if depth - 1 = 0 then Some i
            else findCloseQuoted cs (i + 1) (depth - 1) inString stringChar)
         else findCloseQuoted cs (i + 1) depth inString stringChar)
      else findCloseQuoted cs (i + 1) depth inString stringChar)"

definition extractFunctionContentQuoted :: "string \<Rightarrow> string \<Rightarrow> string" where
  "extractFunctionContentQuoted v funcName =
     (let start = indexOf v (funcName @ ''('') + int (length funcName) + 1;
          end = (case findCloseQuoted (drop (nat start) v) start 1 False [] of
                   None \<Rightarrow> start
                 | Some i \<Rightarrow> i)
      in slice v start end)"

text \<open>The loop of \<^verbatim>\<open>parseFunctionArgs\<close>: the texts it hands to \<^verbatim>\<open>parseExpression\<close>, in
  order.  The arguments are the characters left, \<^verbatim>\<open>current\<close>, \<^verbatim>\<open>depth\<close>,
  \<^verbatim>\<open>inString\<close> and \<^verbatim>\<open>stringChar\<close>.\<close>

fun splitArgs :: "string \<Rightarrow> string \<Rightarrow> int \<Rightarrow> bool \<Rightarrow> string \<Rightarrow> string list" where
  "splitArgs [] current depth inString stringChar =
     (if trim current \<noteq> [] then [trim current] else [])"
| "splitArgs (c # rest) current depth inString stringChar =
     (if isQuote c \<and> \<not> inString then splitArgs rest (current @ [c]) depth True [c]
      else if [c] = stringChar \<and> inString then
        splitArgs rest (current @ [c]) depth False stringChar
      else if \<not> inString then
        (if c = CHR ''('' then splitArgs rest (current @ [c]) (depth + 1) inString stringChar
         else if c = CHR '')'' then
           splitArgs rest (current @ [c]) (depth - 1) inString stringChar
         else if c = CHR '','' \<and> depth = 0 then
           (if trim current \<noteq> [] then [trim current] else [])
             @ splitArgs rest [] depth inString stringChar
         else splitArgs rest (current @ [c]) depth inString stringChar)
      else splitArgs rest (current @ [c]) depth inString stringChar)"

text \<open>The loop of \<^verbatim>\<open>splitIfBranches\<close>, with the same arguments.\<close>

fun splitLoop :: "string \<Rightarrow> string \<Rightarrow> int \<Rightarrow> bool \<Rightarrow> string \<Rightarrow> string list" where
  "splitLoop [] current depth inString stringChar =
     (if trim current \<noteq> [] then [current] else [])"
| "splitLoop (c # rest) current depth inString stringChar =
     (if isQuote c \<and> \<not> inString then splitLoop rest (current @ [c]) depth True [c]
      else if [c] = stringChar \<and> inString then
        splitLoop rest (current @ [c]) depth False stringChar
      else if \<not> inString then
        (if c = CHR ''('' then splitLoop rest (current @ [c]) (depth + 1) inString stringChar
         else if c = CHR '')'' then
           splitLoop rest (current @ [c]) (depth - 1) inString stringChar
         else if c = CHR '';'' \<and> depth = 0 then
           current # splitLoop rest [] depth inString stringChar
         else splitLoop rest (current @ [c]) depth inString stringChar)
      else splitLoop rest (current @ [c]) depth inString stringChar)"

definition splitIfBranches :: "string \<Rightarrow> string list" where
  "splitIfBranches str = splitLoop str [] 0 False []"

text \<open>The loop of \<^verbatim>\<open>findColonInBranch\<close> from index \<open>i\<close> on.\<close>

fun colonLoop :: "string \<Rightarrow> int \<Rightarrow> int \<Rightarrow> bool \<Rightarrow> string \<Rightarrow> int" where
  "colonLoop [] i depth inString stringChar = - 1"
| "colonLoop (c # rest) i depth inString stringChar =
     (if isQuote c \<and> \<not> inString then colonLoop rest (i + 1) depth True [c]
      else if [c] = stringChar \<and> inString then colonLoop rest (i + 1) depth False stringChar
      else if \<not> inString then
        (if c = CHR ''('' then colonLoop rest (i + 1) (depth + 1) inString stringChar
         else if c = CHR '')'' then colonLoop rest (i + 1) (depth - 1) inString stringChar
         else if c = CHR '':'' \<and> depth = 0 then i
         else colonLoop rest (i + 1) depth inString stringChar)
      else colonLoop rest (i + 1) depth inString stringChar)"

definition findColonInBranch :: "string \<Rightarrow> int" where
  "findColonInBranch str = colonLoop str 0 0 False []"

subsection \<open>Conditions and expressions\<close>

text \<open>The last two statements of \<^verbatim>\<open>parseCondition\<close>: the bare variable.\<close>

definition truthyOf :: "string \<Rightarrow> condition" where
  "truthyOf s = (case varMatch s of Some n \<Rightarrow> Truthy n | None \<Rightarrow> Truthy (stripPrefix ''--'' s))"

text \<open>\<^verbatim>\<open>parseCondition\<close>.  \<^verbatim>\<open>isNaN(Number(valueStr))\<close> asks whether the conversion gives
  \<^verbatim>\<open>NaN\<close>; the \<^verbatim>\<open>switch\<close> on the operator falls through to the bare variable when no
  case applies.\<close>

function parseCondition :: "builtins \<Rightarrow> string \<Rightarrow> condition" where
  "parseCondition b str =
     (let trimmedStr = trim str;
          orIndex = indexOf trimmedStr '' or '';
          andIndex = indexOf trimmedStr '' and ''
      in if orIndex \<noteq> - 1 then
           Or [parseCondition b (trim (slice trimmedStr 0 orIndex)),
               parseCondition b (trim (sliceFrom trimmedStr (orIndex + 4)))]
         else if andIndex \<noteq> - 1 then
           And [parseCondition b (trim (slice trimmedStr 0 andIndex)),
                parseCondition b (trim (sliceFrom trimmedStr (andIndex + 5)))]
         else if startsWith trimmedStr ''not '' then
           NotCond (parseCondition b (sliceFrom trimmedStr 4))
         else
           (case compMatch trimmedStr of
              Some m \<Rightarrow>
                (let varName = stripPrefix ''--'' (fst m);
                     oper = fst (snd m);
                     valueStr = trim (snd (snd m));
                     v = (if stringToNumber b valueStr = NaN then VStr (parseStringValue valueStr)
                          else VNum (stringToNumber b valueStr))
                 in if oper = ''='' then Equals varName v
                    else if oper = ''!='' then NotEquals varName v
                    else if oper = ''>'' then GreaterThan varName v
                    else if oper = ''<'' then LessThan varName v
                    else if oper = ''>='' then GreaterOrEqual varName v
                    else if oper = ''<='' then LessOrEqual varName v
                    else truthyOf trimmedStr)
            | None \<Rightarrow> truthyOf trimmedStr))"
  by pat_completeness auto

text \<open>
  \<^verbatim>\<open>parseExpression\<close> with \<^verbatim>\<open>parseSqlExpression\<close>, \<^verbatim>\<open>parseFunctionArgs\<close> and
  \<^verbatim>\<open>parseIfExpression\<close>.  The loop of \<^verbatim>\<open>parseIfExpression\<close> over the parts is a fold
  whose accumulator is the pair of \<^verbatim>\<open>branches\<close> and \<^verbatim>\<open>elseValue\<close>.
\<close>

function parseExpression :: "builtins \<Rightarrow> string \<Rightarrow> expression"
  and parseSqlExpression :: "builtins \<Rightarrow> string \<Rightarrow> expression"
  and parseFunctionArgs :: "builtins \<Rightarrow> string \<Rightarrow> expression list"
  and parseIfExpression :: "builtins \<Rightarrow> string \<Rightarrow> expression"
where
  "parseExpression b v =
     (let trimmedValue = trim v
      in if startsWith trimmedValue ''sql('' then parseSqlExpression b trimmedValue
         else if startsWith trimmedValue ''param('' then
           Param (stripPrefix '':'' (extractFunctionContent trimmedValue ''param''))
         else if startsWith trimmedValue ''query('' then
           Query (extractFunctionContent trimmedValue ''query'')
         else if startsWith trimmedValue ''body('' then
           Body (extractFunctionContent trimmedValue ''body'')
         else if startsWith trimmedValue ''header('' then
           Header (extractFunctionContent trimmedValue ''header'')
         else if startsWith trimmedValue ''var('' then
           Var (stripPrefix ''--'' (extractFunctionContent trimmedValue ''var''))
         else if startsWith trimmedValue ''if('' then parseIfExpression b trimmedValue
         else if isNumericLiteral trimmedValue then Literal (VNum (parseFloat trimmedValue))
         else if trimmedValue = ''true'' \<or> trimmedValue = ''false'' then
           Literal (VBool (trimmedValue = ''true''))
         else if trimmedValue = ''null'' then Literal VNull
         else if startsWith trimmedValue ''['' \<or> startsWith trimmedValue ''{'' then
           (case jsonParse b trimmedValue of
              Some j \<Rightarrow> Json j
            | None \<Rightarrow> Literal (VStr (parseStringValue trimmedValue)))
         else Literal (VStr (parseStringValue trimmedValue)))"
| "parseSqlExpression b v =
     (case sqlMatch v of
        None \<Rightarrow> Sql [] []
      | Some m \<Rightarrow> Sql (fst m) (parseFunctionArgs b (case snd m of None \<Rightarrow> [] | Some a \<Rightarrow> a)))"
| "parseFunctionArgs b argsStr =
     (if trim argsStr = [] then []
      else map (parseExpression b) (splitArgs argsStr [] 0 False []))"
| "parseIfExpression b v =
     (let inner = extractFunctionContent v ''if'';
          parts = splitIfBranches inner;
          r = foldl (\<lambda>acc part.
                 if startsWith (trim part) ''else:'' then
                   (fst acc, Some (parseExpression b (trim (sliceFrom (trim part) 5))))
                 else
                   (let colonIndex = findColonInBranch part
                    in if colonIndex \<noteq> - 1 then
                         (fst acc @
                            [(parseCondition b (trim (slice part 0 colonIndex)),
                              parseExpression b (trim (sliceFrom part (colonIndex + 1))))],
                          snd acc)
                       else acc))
                ([], None) parts
      in IfExpr (fst r) (snd r))"
  by pat_completeness auto

text \<open>\<^verbatim>\<open>parseReturnAtRule\<close>, on the text of the rule's parameters.\<close>

definition parseReturnAtRule :: "builtins \<Rightarrow> string \<Rightarrow> returnType \<times> expression" where
  "parseReturnAtRule b atRuleParams =
     (let ps = trim atRuleParams
      in if startsWith ps ''json('' then
           (ReturnJson, parseExpression b (extractFunctionContent ps ''json''))
         else if startsWith ps ''html('' then
           (ReturnHtml, parseExpression b (extractFunctionContent ps ''html''))
         else (ReturnJson, parseExpression b ps))"

section \<open>An example deployment\<close>

text \<open>
  Concrete instances for the examples below.  The stand-ins for the built-in conversions
  read the empty text and decimal text as \<^verbatim>\<open>Number\<close> does and decode the two empty JSON
  literals; the examples print no number and make no array or function a prototype.  The
  database has one table \<^verbatim>\<open>users\<close>: its
  statements select by \<^verbatim>\<open>id\<close> when an argument is bound, insert a row named by the first
  argument, and fail on an empty statement and on a missing name.
\<close>

definition exampleBuiltins :: builtins where
  "exampleBuiltins =
     \<lparr>stringToNumber =
        (\<lambda>s. if trim s = [] then Finite 0
             else if isNumericLiteral (trim s) then parseFloat (trim s) else NaN),
      numberToString = (\<lambda>n. case n of NaN \<Rightarrow> ''NaN'' | _ \<Rightarrow> ''0''),
      functionToString = (\<lambda>f. ''function '' @ f @ ''() { [native code] }''),
      jsonParse = (\<lambda>s. if s = ''[]'' then Some (VArr []) else if s = ''{}'' then Some (VObj []) else None),
      arrayPrototypeProperty = (\<lambda>name. None),
      functionProperty = (\<lambda>f name. None)\<rparr>"

definition exampleMatches :: "jsval list \<Rightarrow> (string \<times> jsval) list \<Rightarrow> bool" where
  "exampleMatches args row = (case args of [] \<Rightarrow> True | a # _ \<Rightarrow> map_of row ''id'' = Some a)"

definition exampleDb :: "(string \<times> jsval) list list database" where
  "exampleDb =
     \<lparr>prepare = (\<lambda>d q. if q = [] then Some (ThrownError ''incomplete input'') else None),
      stmt_get = (\<lambda>d q args.
         (Inr (case find (exampleMatches args) d of None \<Rightarrow> VUndefined | Some row \<Rightarrow> VObj row), d)),
      stmt_all = (\<lambda>d q args. (Inr (VArr (map VObj (filter (exampleMatches args) d))), d)),
      stmt_run = (\<lambda>d q args.
         case args of
           [] \<Rightarrow> (Inl (ThrownError ''NOT NULL constraint failed: users.name''), d)
         | a # _ \<Rightarrow>
             (Inr \<lparr>changes = VNum (Finite 1), lastInsertRowid = VNum (Finite (of_nat (length d + 1)))\<rparr>,
              d @ [[(''id'', VNum (Finite (of_nat (length d + 1)))), (''name'', a)]]))\<rparr>"

definition exampleRows :: "(string \<times> jsval) list list" where
  "exampleRows =
     [[(''id'', VNum (Finite 1)), (''name'', VStr ''John'')],
      [(''id'', VNum (Finite 2)), (''name'', VStr ''Jane'')]]"

definition exampleState :: "(string \<times> jsval) list list state" where
  "exampleState =
     \<lparr>ctx = \<lparr>params = [''id'' \<mapsto> ''1''], query = Map.empty, body = Map.empty,
             headers = [''x-user-role'' \<mapsto> ''admin''], variables = Map.empty,
             variablesPrototype = ObjectPrototype\<rparr>,
      db = Some exampleRows\<rparr>"

text \<open>A request \<^verbatim>\<open>GET /users/1\<close> with no query, body or header, and the route that makes
  the given assignments and returns the variable of the given name as JSON.\<close>

definition exampleRequest :: request where
  "exampleRequest =
     \<lparr>req_params = [(''id'', VStr ''1'')], req_query = [], req_body = VUndefined,
      req_headers = []\<rparr>"

definition exampleRoute :: "(string \<times> expression) list \<Rightarrow> string \<Rightarrow> routeRule" where
  "exampleRoute assignments name =
     \<lparr>route_path = ''/users/:id'', route_method = GET, route_variables = assignments,
      route_status = None, route_return = (ReturnJson, Var name)\<rparr>"

section \<open>Termination of the parser\<close>

lemma length_trim_le: "length (trim s) \<le> length s"
proof -
  have "length (trim s) \<le> length (dropWhile isSpace s)"
    unfolding trim_def using length_dropWhile_le [of isSpace "rev (dropWhile isSpace s)"] by simp
  also have "\<dots> \<le> length s" by (rule length_dropWhile_le)
  finally show ?thesis .
qed

lemma startsWith_length: "startsWith s p \<Longrightarrow> length p \<le> length s"
proof -
  assume "startsWith s p"
  then have "length (take (length p) s) = length p" unfolding startsWith_def by simp
  then show ?thesis by simp
qed

lemma indexFrom_bounds:
  "indexFrom i s p \<noteq> - 1 \<Longrightarrow>
     int i \<le> indexFrom i s p \<and> indexFrom i s p + int (length p) \<le> int i + int (length s)"
proof (induction s arbitrary: i)
  case Nil
  then show ?case by (simp split: if_splits)
next
  case (Cons c cs)
  show ?case
  proof (cases "startsWith (c # cs) p")
    case True
    then show ?thesis using startsWith_length [OF True] by simp
  next
    case False
    then have "indexFrom (Suc i) cs p \<noteq> - 1" using Cons.prems by simp
    from Cons.IH [OF this] False show ?thesis by simp
  qed
qed

lemma indexOf_bounds:
  "indexOf s p \<noteq> - 1 \<Longrightarrow> 0 \<le> indexOf s p \<and> indexOf s p + int (length p) \<le> int (length s)"
  unfolding indexOf_def using indexFrom_bounds [of 0 s p] by simp

lemma length_slice_start: "0 \<le> a \<Longrightarrow> length (slice s a e) \<le> length s - nat a"
  unfolding slice_def Let_def by (auto simp: min_def max_def)

lemma length_slice_end: "0 \<le> e \<Longrightarrow> length (slice s 0 e) \<le> nat e"
  unfolding slice_def Let_def by (auto simp: min_def max_def)

lemma length_sliceFrom: "0 \<le> a \<Longrightarrow> length (sliceFrom s a) \<le> length s - nat a"
  unfolding sliceFrom_def by (rule length_slice_start)

lemma splitArgs_length:
  "x \<in> set (splitArgs str cur d i sc) \<Longrightarrow> length x \<le> length cur + length str"
proof (induction str arbitrary: cur d i sc)
  case Nil
  then show ?case using length_trim_le [of cur] by (auto split: if_splits)
next
  case (Cons c rest)
  have step: "\<And>d' i' sc'. x \<in> set (splitArgs rest (cur @ [c]) d' i' sc') \<Longrightarrow>
      length x \<le> Suc (length cur + length rest)"
    using Cons.IH by fastforce
  have fresh: "\<And>d' i' sc'. x \<in> set (splitArgs rest [] d' i' sc') \<Longrightarrow>
      length x \<le> Suc (length cur + length rest)"
    using Cons.IH by fastforce
  have here: "length (trim cur) \<le> Suc (length cur + length rest)"
    using length_trim_le [of cur] by simp
  from Cons.prems show ?case
    by (auto split: if_splits intro: step fresh simp: here)
qed

lemma splitLoop_length:
  "x \<in> set (splitLoop str cur d i sc) \<Longrightarrow> length x \<le> length cur + length str"
proof (induction str arbitrary: cur d i sc)
  case Nil
  then show ?case by (auto split: if_splits)
next
  case (Cons c rest)
  have step: "\<And>d' i' sc'. x \<in> set (splitLoop rest (cur @ [c]) d' i' sc') \<Longrightarrow>
      length x \<le> Suc (length cur + length rest)"
    using Cons.IH by fastforce
  have fresh: "\<And>d' i' sc'. x \<in> set (splitLoop rest [] d' i' sc') \<Longrightarrow>
      length x \<le> Suc (length cur + length rest)"
    using Cons.IH by fastforce
  from Cons.prems show ?case
    by (auto split: if_splits intro: step fresh)
qed

lemma splitIfBranches_length: "x \<in> set (splitIfBranches str) \<Longrightarrow> length x \<le> length str"
  unfolding splitIfBranches_def using splitLoop_length [of x str "[]" 0 False "[]"] by simp

lemma splitIfBranches_nonempty: "x \<in> set (splitIfBranches str) \<Longrightarrow> str \<noteq> []"
  unfolding splitIfBranches_def by (auto simp: trim_def)

lemma extractFunctionContent_length:
  "length (extractFunctionContent v f) \<le> length v - length f"
proof -
  define start where "start = indexOf v (f @ ''('') + int (length f) + 1"
  have "indexOf v (f @ ''('') \<ge> - 1" using indexOf_bounds [of v "f @ ''(''"] by force
  then have s: "int (length f) \<le> start" unfolding start_def by simp
  then have "0 \<le> start" by linarith
  from length_slice_start [OF this] s show ?thesis
    unfolding extractFunctionContent_def Let_def start_def [symmetric] 
    by (smt (verit) diff_le_mono2 le_trans nat_int nat_mono)
qed

lemma sqlTail_length: "sqlTail r = Some (Some a) \<Longrightarrow> length a < length r"
proof -
  assume h: "sqlTail r = Some (Some a)"
  show ?thesis
  proof (cases "dropWhile isSpace r")
    case Nil
    with h show ?thesis unfolding sqlTail_def by simp
  next
    case (Cons c r2)
    define m where "m = butlast r2"
    from h Cons have r2: "r2 \<noteq> []" and m: "m \<noteq> []"
      and a: "a = (if dropWhile isSpace m \<noteq> [] then dropWhile isSpace m else [last m])"
      unfolding sqlTail_def m_def by (auto simp: Let_def split: if_splits)
    have "length a \<le> length m"
    proof (cases "dropWhile isSpace m \<noteq> []")
      case True
      then show ?thesis using a length_dropWhile_le [of isSpace m] by simp
    next
      case False
      then show ?thesis using a m by (cases m) simp_all
    qed
    also have "length m < length r2" using r2 unfolding m_def by simp
    also have "length r2 < length (dropWhile isSpace r)" using Cons by simp
    also have "\<dots> \<le> length r" by (rule length_dropWhile_le)
    finally show ?thesis .
  qed
qed

lemma length_take_drop_le: "length (take n (drop k s)) \<le> length s"
proof -
  have "length (take n (drop k s)) \<le> length (drop k s)" by simp
  also have "\<dots> \<le> length s" by simp
  finally show ?thesis .
qed

lemma length_slice_le: "length (slice s a e) \<le> length s"
  unfolding slice_def Let_def by (rule length_take_drop_le)

lemma sqlLazy_length: "sqlLazy acc cs = Some (q, Some a) \<Longrightarrow> length a < length cs"
proof (induction cs arbitrary: acc)
  case Nil then show ?case by simp
next
  case (Cons c cs)
  then show ?case
    by (fastforce split: if_splits option.splits dest: sqlTail_length)
qed

lemma sqlMatch_length: "sqlMatch v = Some (q, Some a) \<Longrightarrow> length a < length v"
proof -
  assume h: "sqlMatch v = Some (q, Some a)"
  then obtain c r q0 r' where 1: "dropWhile isSpace (drop 3 v) = c # r"
    and 2: "dropWhile isSpace r = q0 # r'" and 3: "sqlLazy [] r' = Some (q, Some a)"
    unfolding sqlMatch_def by (auto split: if_splits list.splits)
  have "length a < length r'" using sqlLazy_length [OF 3] .
  also have "\<dots> \<le> length (dropWhile isSpace r)" using 2 by simp
  also have "\<dots> \<le> length r" by (rule length_dropWhile_le)
  also have "\<dots> \<le> length (dropWhile isSpace (drop 3 v))" using 1 by simp
  also have "\<dots> \<le> length (drop 3 v)" by (rule length_dropWhile_le)
  also have "\<dots> \<le> length v" by simp
  finally show ?thesis .
qed

lemma sqlMatch_nonempty: "sqlMatch v = Some m \<Longrightarrow> v \<noteq> []"
  unfolding sqlMatch_def startsWith_def by (auto split: if_splits)

termination parseCondition
proof (relation "measure (\<lambda>(b, s). length s)", goal_cases)
  case 1
  show ?case by simp
next
  case (2 b str x xa xb)
  then have "xa \<noteq> - 1" and xa: "xa = indexOf (trim str) '' or ''" by simp_all
  with indexOf_bounds [of "trim str" "'' or ''"] have "0 \<le> xa" "xa + 4 \<le> int (length (trim str))"
    by simp_all
  moreover have "length (trim (slice x 0 xa)) \<le> nat xa"
    using length_trim_le [of "slice x 0 xa"] length_slice_end [OF \<open>0 \<le> xa\<close>, of x] by linarith
  ultimately show ?case using length_trim_le [of str] by simp
next
  case (3 b str x xa xb)
  then have "xa \<noteq> - 1" and xa: "xa = indexOf (trim str) '' or ''" and x: "x = trim str" by simp_all
  with indexOf_bounds [of "trim str" "'' or ''"] have "0 \<le> xa" "xa + 4 \<le> int (length (trim str))"
    by simp_all
  moreover have "length (trim (sliceFrom x (xa + 4))) \<le> length x - nat (xa + 4)"
    using length_trim_le [of "sliceFrom x (xa + 4)"] length_sliceFrom [of "xa + 4" x] \<open>0 \<le> xa\<close>
    by linarith
  ultimately show ?case using length_trim_le [of str] x by simp
next
  case (4 b str x xa xb)
  then have "xb \<noteq> - 1" and xb: "xb = indexOf (trim str) '' and ''" by simp_all
  with indexOf_bounds [of "trim str" "'' and ''"] have "0 \<le> xb" "xb + 5 \<le> int (length (trim str))"
    by simp_all
  moreover have "length (trim (slice x 0 xb)) \<le> nat xb"
    using length_trim_le [of "slice x 0 xb"] length_slice_end [OF \<open>0 \<le> xb\<close>, of x] by linarith
  ultimately show ?case using length_trim_le [of str] by simp
next
  case (5 b str x xa xb)
  then have "xb \<noteq> - 1" and xb: "xb = indexOf (trim str) '' and ''" and x: "x = trim str" by simp_all
  with indexOf_bounds [of "trim str" "'' and ''"] have "0 \<le> xb" "xb + 5 \<le> int (length (trim str))"
    by simp_all
  moreover have "length (trim (sliceFrom x (xb + 5))) \<le> length x - nat (xb + 5)"
    using length_trim_le [of "sliceFrom x (xb + 5)"] length_sliceFrom [of "xb + 5" x] \<open>0 \<le> xb\<close>
    by linarith
  ultimately show ?case using length_trim_le [of str] x by simp
next
  case (6 b str x xa xb)
  then have "startsWith x ''not ''" and x: "x = trim str" by simp_all
  from startsWith_length [OF this(1)] have "4 \<le> length x" by simp
  moreover have "length (sliceFrom x 4) \<le> length x - 4"
    using length_sliceFrom [of 4 x] by simp
  ultimately show ?case using length_trim_le [of str] x by simp
qed

termination parseExpression
proof (relation "measure (\<lambda>x. case x of
        Inl (Inl (b, v)) \<Rightarrow> 3 * length v + 2
      | Inl (Inr (b, v)) \<Rightarrow> 3 * length v + 1
      | Inr (Inl (b, a)) \<Rightarrow> 3 * length a + 3
      | Inr (Inr (b, v)) \<Rightarrow> 3 * length v + 1)", goal_cases)
  case 1
  show ?case by simp
next
  case (2 b v x)
  then show ?case using length_trim_le [of v] by simp
next
  case (3 b v x)
  then show ?case using length_trim_le [of v] by simp
next
  case (4 b v x2)
  show ?case
  proof (cases "snd x2")
    case None
    then show ?thesis using sqlMatch_nonempty [OF 4] by (cases v) simp_all
  next
    case (Some a)
    then have "sqlMatch v = Some (fst x2, Some a)" using 4 by (metis prod.collapse)
    from sqlMatch_length [OF this] show ?thesis using Some by simp
  qed
next
  case (5 b argsStr x)
  then show ?case using splitArgs_length [of x argsStr "[]" 0 False "[]"] by simp
next
  case (6 b v x xa a xb)
  then have xb: "xb \<in> set (splitIfBranches (extractFunctionContent v ''if''))" by simp
  have "length (trim (sliceFrom (trim xb) 5)) \<le> length xb"
    using length_trim_le [of "sliceFrom (trim xb) 5"] length_sliceFrom [of 5 "trim xb"]
      length_trim_le [of xb] by simp
  also have "\<dots> \<le> length (extractFunctionContent v ''if'')" using splitIfBranches_length [OF xb] .
  finally have "length (trim (sliceFrom (trim xb) 5)) \<le> length v - 2"
    using extractFunctionContent_length [of v "''if''"] by simp
  moreover have "2 < length v"
    using splitIfBranches_nonempty [OF xb] extractFunctionContent_length [of v "''if''"]
    by (cases "extractFunctionContent v ''if''") auto
  ultimately show ?case by simp
next
  case (7 b v x xa a xb xc)
  then have xb: "xb \<in> set (splitIfBranches (extractFunctionContent v ''if''))" by simp
  have "length (trim (sliceFrom xb (xc + 1))) \<le> length xb"
    using length_trim_le [of "sliceFrom xb (xc + 1)"]
      length_slice_le [of xb "xc + 1" "int (length xb)"]
    unfolding sliceFrom_def by linarith
  also have "\<dots> \<le> length (extractFunctionContent v ''if'')" using splitIfBranches_length [OF xb] .
  finally have "length (trim (sliceFrom xb (xc + 1))) \<le> length v - 2"
    using extractFunctionContent_length [of v "''if''"] by simp
  moreover have "2 < length v"
    using splitIfBranches_nonempty [OF xb] extractFunctionContent_length [of v "''if''"]
    by (cases "extractFunctionContent v ''if''") auto
  ultimately show ?case by simp
qed



section \<open>Properties of the evaluator\<close>

text \<open>
  Claim C3.  A conditional tests the conditions of its branches in source order and
  returns the value of the first branch whose condition holds; when none holds it
  returns the value of the else expression if there is one, and \<^verbatim>\<open>null\<close> otherwise.  No
  other branch is evaluated.
\<close>

theorem conditional_first_match:
  "evaluateExpression ex b (IfExpr branches elseValue) s =
     (case find (\<lambda>branch. evaluateCondition b (fst branch) (ctx s)) branches of
        Some branch \<Rightarrow> evaluateExpression ex b (snd branch) s
      | None \<Rightarrow> (case elseValue of Some e \<Rightarrow> evaluateExpression ex b e s | None \<Rightarrow> (VNull, s)))"
proof (induction branches)
  case Nil
  show ?case by simp
next
  case (Cons branch rest)
  then show ?case by simp
qed

text \<open>With a first branch whose condition fails and a second whose condition holds, the
  value is the second branch's, not the first's and not the else value.\<close>

theorem conditional_first_match_witness:
  "evaluateExpression exampleDb exampleBuiltins
     (IfExpr [(Truthy ''missing'', Literal (VStr ''first'')),
          (Truthy ''present'', Literal (VStr ''second''))]
         (Some (Literal (VStr ''else''))))
     (exampleState\<lparr>ctx := (ctx exampleState)\<lparr>variables := [''present'' \<mapsto> VBool True]\<rparr>\<rparr>)
   = (VStr ''second'',
      exampleState\<lparr>ctx := (ctx exampleState)\<lparr>variables := [''present'' \<mapsto> VBool True]\<rparr>\<rparr>)"
  unfolding conditional_first_match
  by (simp add: getVariable_def getProperty_def objectPrototypeProperty_def exampleState_def)

text \<open>A read of a variable finds the value bound to the name; with nothing bound it goes
  to the prototype, where a name that \<^verbatim>\<open>Object.prototype\<close> does not hold reads as
  \<^verbatim>\<open>undefined\<close>.\<close>

lemma getVariable_bound: "variables c name = Some v \<Longrightarrow> getVariable b c name = v"
  by (simp add: getVariable_def getProperty_def)

lemma getVariable_unbound:
  assumes "variables c name = None" and "variablesPrototype c = ObjectPrototype"
    and "objectPrototypeProperty name = None"
  shows "getVariable b c name = VUndefined"
  using assms by (simp add: getVariable_def getProperty_def)

lemma getVariable_inherited:
  assumes "variables c name = None" and "variablesPrototype c = ObjectPrototype"
    and "objectPrototypeProperty name = Some (DataProperty v)"
  shows "getVariable b c name = v"
  using assms by (simp add: getVariable_def getProperty_def)

text \<open>
  Claim C6.  The truthiness test of a variable is decided by the value the read
  \<^verbatim>\<open>ctx.variables[name]\<close> gives: false for \<^verbatim>\<open>undefined\<close> and \<^verbatim>\<open>null\<close>, the number 0, the
  empty string, an empty array, an object with no keys and the boolean \<^verbatim>\<open>false\<close>; true
  for a number other than 0, a non-empty string, a non-empty array, an object with a key,
  the boolean \<^verbatim>\<open>true\<close>, and a function.  The read does not stop at the variables that
  are bound: with no variable of the name \<^verbatim>\<open>constructor\<close> it gives the function
  \<^verbatim>\<open>Object\<close> that \<^verbatim>\<open>Object.prototype\<close> holds, and the test of that unbound variable is
  true, so that \<^verbatim>\<open>if(--constructor: 'yes'; else: 'no')\<close> is \<^verbatim>\<open>yes\<close>; the test of an unbound
  variable is false only for a name that \<^verbatim>\<open>Object.prototype\<close> does not hold, such as
  \<^verbatim>\<open>missing\<close>, and for \<^verbatim>\<open>__proto__\<close>.
\<close>

theorem truthy_reads_prototype:
  "evaluateCondition b (Truthy name) c =
     (case getVariable b c name of
        VUndefined \<Rightarrow> False
      | VNull \<Rightarrow> False
      | VBool x \<Rightarrow> x
      | VNum n \<Rightarrow> n \<noteq> Finite 0
      | VStr s \<Rightarrow> s \<noteq> []
      | VArr xs \<Rightarrow> xs \<noteq> []
      | VObj kvs \<Rightarrow> kvs \<noteq> []
      | VFunction f \<Rightarrow> True) \<and>
   variables (ctx exampleState) ''constructor'' = None \<and>
   getVariable exampleBuiltins (ctx exampleState) ''constructor'' = VFunction ''Object'' \<and>
   evaluateCondition exampleBuiltins (Truthy ''constructor'') (ctx exampleState) = True \<and>
   parseExpression exampleBuiltins ''if(--constructor: 'yes'; else: 'no')'' =
     IfExpr [(Truthy ''constructor'', Literal (VStr ''yes''))] (Some (Literal (VStr ''no''))) \<and>
   fst (evaluateExpression exampleDb exampleBuiltins
          (parseExpression exampleBuiltins ''if(--constructor: 'yes'; else: 'no')'')
          exampleState) = VStr ''yes'' \<and>
   evaluateCondition exampleBuiltins (Truthy ''toString'') (ctx exampleState) = True \<and>
   evaluateCondition exampleBuiltins (Truthy ''missing'') (ctx exampleState) = False \<and>
   evaluateCondition exampleBuiltins (Truthy ''__proto__'') (ctx exampleState) = False"
proof -
  have general: "evaluateCondition b (Truthy name) c =
     (case getVariable b c name of
        VUndefined \<Rightarrow> False
      | VNull \<Rightarrow> False
      | VBool x \<Rightarrow> x
      | VNum n \<Rightarrow> n \<noteq> Finite 0
      | VStr s \<Rightarrow> s \<noteq> []
      | VArr xs \<Rightarrow> xs \<noteq> []
      | VObj kvs \<Rightarrow> kvs \<noteq> []
      | VFunction f \<Rightarrow> True)"
    by (simp split: jsval.splits)
  have unbound: "variables (ctx exampleState) ''constructor'' = None"
    by (simp add: exampleState_def)
  have read: "getVariable exampleBuiltins (ctx exampleState) ''constructor'' = VFunction ''Object''"
    by (simp add: getVariable_def getProperty_def exampleState_def objectPrototypeProperty_def)
  have test: "evaluateCondition exampleBuiltins (Truthy ''constructor'') (ctx exampleState) = True"
    using read by simp
  have parsed: "parseExpression exampleBuiltins ''if(--constructor: 'yes'; else: 'no')'' =
     IfExpr [(Truthy ''constructor'', Literal (VStr ''yes''))] (Some (Literal (VStr ''no'')))"
    by code_simp
  have evaluated: "fst (evaluateExpression exampleDb exampleBuiltins
          (parseExpression exampleBuiltins ''if(--constructor: 'yes'; else: 'no')'')
          exampleState) = VStr ''yes''"
    unfolding parsed using test by simp
  have toString: "evaluateCondition exampleBuiltins (Truthy ''toString'') (ctx exampleState) = True"
    by (simp add: getVariable_def getProperty_def exampleState_def objectPrototypeProperty_def)
  have missing: "evaluateCondition exampleBuiltins (Truthy ''missing'') (ctx exampleState) = False"
    by (simp add: getVariable_def getProperty_def exampleState_def objectPrototypeProperty_def)
  have proto: "evaluateCondition exampleBuiltins (Truthy ''__proto__'') (ctx exampleState) = False"
    by (simp add: getVariable_def getProperty_def exampleState_def objectPrototypeProperty_def)
  from general unbound read test parsed evaluated toString missing proto show ?thesis
    by blast
qed

text \<open>
  Claim C1.  With a database configured and a statement that compiles, a statement whose
  trimmed text begins with \<^verbatim>\<open>SELECT\<close> in any letter case is run with \<^verbatim>\<open>get\<close> when its
  text contains \<^verbatim>\<open>LIMIT 1\<close> or exactly one argument expression is given: the row object
  \<^verbatim>\<open>get\<close> returns is the value, and \<^verbatim>\<open>null\<close> when it returns no row.  In every other
  case it is run with \<^verbatim>\<open>all\<close>, and the array of rows is the value.
\<close>

theorem select_fetch_one_or_all:
  assumes "db s = Some d0"
    and "startsWith (toUpperCase (trim q)) ''SELECT''"
    and "evaluateAll ex b args s = (vs, s')"
    and "db s' = Some d"
    and "prepare ex d q = None"
  shows "(includesStr q ''LIMIT 1'' \<or> length args = 1 \<longrightarrow>
            (\<forall>row d'. stmt_get ex d q vs = (Inr (VObj row), d') \<longrightarrow>
               evaluateExpression ex b (Sql q args) s = (VObj row, s'\<lparr>db := Some d'\<rparr>)) \<and>
            (\<forall>d'. stmt_get ex d q vs = (Inr VUndefined, d') \<longrightarrow>
               evaluateExpression ex b (Sql q args) s = (VNull, s'\<lparr>db := Some d'\<rparr>))) \<and>
         (\<not> (includesStr q ''LIMIT 1'' \<or> length args = 1) \<longrightarrow>
            (\<forall>rows d'. stmt_all ex d q vs = (Inr rows, d') \<longrightarrow>
               evaluateExpression ex b (Sql q args) s = (rows, s'\<lparr>db := Some d'\<rparr>)))"
  using assms by (simp add: evaluateSqlTry_def)

text \<open>On a table of two rows: one argument gives the one matching row, or \<^verbatim>\<open>null\<close>
  when no row matches; no argument gives the array of both rows.\<close>

theorem select_fetch_one_or_all_witness:
  "evaluateExpression exampleDb exampleBuiltins
     (Sql ''SELECT * FROM users WHERE id = ?'' [Literal (VNum (Finite 2))]) exampleState
     = (VObj [(''id'', VNum (Finite 2)), (''name'', VStr ''Jane'')], exampleState) \<and>
   evaluateExpression exampleDb exampleBuiltins
     (Sql ''SELECT * FROM users WHERE id = ?'' [Literal (VNum (Finite 7))]) exampleState
     = (VNull, exampleState) \<and>
   evaluateExpression exampleDb exampleBuiltins (Sql ''SELECT * FROM users'' []) exampleState
     = (VArr [VObj [(''id'', VNum (Finite 1)), (''name'', VStr ''John'')],
              VObj [(''id'', VNum (Finite 2)), (''name'', VStr ''Jane'')]], exampleState)"
proof -
  let ?one = "''SELECT * FROM users WHERE id = ?''"
  let ?all = "''SELECT * FROM users''"
  have d: "db exampleState = Some exampleRows" by (simp add: exampleState_def)
  have same: "exampleState\<lparr>db := Some exampleRows\<rparr> = exampleState"
    by (simp add: exampleState_def)
  have s1: "startsWith (toUpperCase (trim ?one)) ''SELECT''" by code_simp
  have s2: "startsWith (toUpperCase (trim ?all)) ''SELECT''" by code_simp
  have l2: "\<not> includesStr ?all ''LIMIT 1''" by code_simp
  have p1: "prepare exampleDb exampleRows ?one = None" by (simp add: exampleDb_def)
  have p2: "prepare exampleDb exampleRows ?all = None" by (simp add: exampleDb_def)
  have e2: "evaluateAll exampleDb exampleBuiltins [Literal (VNum (Finite 2))] exampleState
      = ([VNum (Finite 2)], exampleState)" by simp
  have e7: "evaluateAll exampleDb exampleBuiltins [Literal (VNum (Finite 7))] exampleState
      = ([VNum (Finite 7)], exampleState)" by simp
  have e0: "evaluateAll exampleDb exampleBuiltins [] exampleState = ([], exampleState)" by simp
  have g2: "stmt_get exampleDb exampleRows ?one [VNum (Finite 2)]
      = (Inr (VObj [(''id'', VNum (Finite 2)), (''name'', VStr ''Jane'')]), exampleRows)"
    by (simp add: exampleDb_def exampleMatches_def exampleRows_def)
  have g7: "stmt_get exampleDb exampleRows ?one [VNum (Finite 7)] = (Inr VUndefined, exampleRows)"
    by (simp add: exampleDb_def exampleMatches_def exampleRows_def)
  have a0: "stmt_all exampleDb exampleRows ?all []
      = (Inr (VArr [VObj [(''id'', VNum (Finite 1)), (''name'', VStr ''John'')],
                    VObj [(''id'', VNum (Finite 2)), (''name'', VStr ''Jane'')]]), exampleRows)"
    by (simp add: exampleDb_def exampleMatches_def exampleRows_def)
  have r2: "evaluateExpression exampleDb exampleBuiltins (Sql ?one [Literal (VNum (Finite 2))])
      exampleState = (VObj [(''id'', VNum (Finite 2)), (''name'', VStr ''Jane'')], exampleState)"
    using select_fetch_one_or_all [OF d s1 e2 d p1] g2 same by simp
  have r7: "evaluateExpression exampleDb exampleBuiltins (Sql ?one [Literal (VNum (Finite 7))])
      exampleState = (VNull, exampleState)"
    using select_fetch_one_or_all [OF d s1 e7 d p1] g7 same by simp
  have r0: "evaluateExpression exampleDb exampleBuiltins (Sql ?all []) exampleState
      = (VArr [VObj [(''id'', VNum (Finite 1)), (''name'', VStr ''John'')],
               VObj [(''id'', VNum (Finite 2)), (''name'', VStr ''Jane'')]], exampleState)"
    using select_fetch_one_or_all [OF d s2 e0 d p2] a0 l2 same by simp
  from r2 r7 r0 show ?thesis by blast
qed

text \<open>
  Claim C2.  Whatever the executor throws while the statement is compiled or run is
  caught: the value of the expression is an object whose \<^verbatim>\<open>error\<close> key holds the message
  (\<^verbatim>\<open>Unknown error\<close> when what was thrown is not an \<^verbatim>\<open>Error\<close>), and evaluation returns
  normally.
\<close>

theorem executor_failure_caught:
  assumes "db s = Some d0"
    and "evaluateAll ex b args s = (vs, s')"
    and "db s' = Some d"
  shows "(\<forall>t. prepare ex d q = Some t \<longrightarrow>
            evaluateExpression ex b (Sql q args) s = (catchError t, s')) \<and>
         (\<forall>t d'. prepare ex d q = None \<and>
            (if startsWith (toUpperCase (trim q)) ''SELECT'' then
               (if includesStr q ''LIMIT 1'' \<or> length args = 1
                then stmt_get ex d q vs = (Inl t, d')
                else stmt_all ex d q vs = (Inl t, d'))
             else stmt_run ex d q vs = (Inl t, d')) \<longrightarrow>
            evaluateExpression ex b (Sql q args) s = (catchError t, s'\<lparr>db := Some d'\<rparr>)) \<and>
         (\<forall>t. \<exists>message. catchError t = VObj [(''error'', VStr message)])"
proof (intro conjI allI impI)
  fix t
  assume "prepare ex d q = Some t"
  with assms show "evaluateExpression ex b (Sql q args) s = (catchError t, s')"
    by (simp add: evaluateSqlTry_def)
next
  fix t d'
  assume "prepare ex d q = None \<and>
            (if startsWith (toUpperCase (trim q)) ''SELECT'' then
               (if includesStr q ''LIMIT 1'' \<or> length args = 1
                then stmt_get ex d q vs = (Inl t, d')
                else stmt_all ex d q vs = (Inl t, d'))
             else stmt_run ex d q vs = (Inl t, d'))"
  with assms show "evaluateExpression ex b (Sql q args) s = (catchError t, s'\<lparr>db := Some d'\<rparr>)"
    by (auto simp: evaluateSqlTry_def split: if_splits)
next
  fix t
  show "\<exists>message. catchError t = VObj [(''error'', VStr message)]"
    by (cases t) simp_all
qed

text \<open>A statement that does not compile and an insert that violates a constraint both
  evaluate to an error object.\<close>

theorem executor_failure_caught_witness:
  "evaluateExpression exampleDb exampleBuiltins (Sql [] []) exampleState
     = (VObj [(''error'', VStr ''incomplete input'')], exampleState) \<and>
   evaluateExpression exampleDb exampleBuiltins (Sql ''INSERT INTO users (name) VALUES (?)'' [])
     exampleState
     = (VObj [(''error'', VStr ''NOT NULL constraint failed: users.name'')], exampleState)"
proof -
  let ?ins = "''INSERT INTO users (name) VALUES (?)''"
  have d: "db exampleState = Some exampleRows" by (simp add: exampleState_def)
  have same: "exampleState\<lparr>db := Some exampleRows\<rparr> = exampleState"
    by (simp add: exampleState_def)
  have e0: "evaluateAll exampleDb exampleBuiltins [] exampleState = ([], exampleState)" by simp
  have p0: "prepare exampleDb exampleRows [] = Some (ThrownError ''incomplete input'')"
    by (simp add: exampleDb_def)
  have p1: "prepare exampleDb exampleRows ?ins = None" by (simp add: exampleDb_def)
  have n1: "\<not> startsWith (toUpperCase (trim ?ins)) ''SELECT''" by code_simp
  have r1: "stmt_run exampleDb exampleRows ?ins []
      = (Inl (ThrownError ''NOT NULL constraint failed: users.name''), exampleRows)"
    by (simp add: exampleDb_def)
  have "evaluateExpression exampleDb exampleBuiltins (Sql [] []) exampleState
      = (catchError (ThrownError ''incomplete input''), exampleState)"
    using executor_failure_caught [OF d e0 d, of "[]"] p0 by blast
  moreover have "evaluateExpression exampleDb exampleBuiltins (Sql ?ins []) exampleState
      = (catchError (ThrownError ''NOT NULL constraint failed: users.name''),
         exampleState\<lparr>db := Some exampleRows\<rparr>)"
    using executor_failure_caught [OF d e0 d, of ?ins] p1 n1 r1 by simp
  ultimately show ?thesis using same by simp
qed

text \<open>The accessor stands under the one name \<^verbatim>\<open>__proto__\<close>, on every prototype.\<close>

lemma objectPrototype_accessor:
  "objectPrototypeProperty name = Some ProtoAccessor \<Longrightarrow> name = ''__proto__''"
  by (simp add: objectPrototypeProperty_def split: if_splits)

lemma valueProperty_accessor:
  "valueProperty b v name = Some ProtoAccessor \<Longrightarrow> name = ''__proto__''"
  by (cases v)
     (auto simp: arrayPrototypeChain_def dest: objectPrototype_accessor
           split: option.splits if_splits)

lemma prototypeProperty_accessor:
  "prototypeProperty b proto name = Some ProtoAccessor \<Longrightarrow> name = ''__proto__''"
  by (cases proto) (auto dest: objectPrototype_accessor valueProperty_accessor)

text \<open>An assignment to any other name, and to a name that is bound already, binds it: the
  next read of the name gives the value assigned.\<close>

lemma getVariable_setVariable:
  assumes "name \<noteq> ''__proto__'' \<or> variables c name \<noteq> None"
  shows "getVariable b (setVariable b c name v) name = v"
proof (cases "variables c name")
  case (Some old)
  then show ?thesis by (simp add: getVariable_def setVariable_def setProperty_def getProperty_def)
next
  case None
  with assms have "prototypeProperty b (variablesPrototype c) name \<noteq> Some ProtoAccessor"
    using prototypeProperty_accessor by blast
  with None show ?thesis
    by (auto simp: getVariable_def setVariable_def setProperty_def getProperty_def
             split: option.splits property.splits)
qed

text \<open>An assignment of a string, a number, a boolean or \<^verbatim>\<open>undefined\<close> to the unbound name
  \<^verbatim>\<open>__proto__\<close> changes nothing.\<close>

lemma setVariable_proto_ignored:
  assumes "variables c ''__proto__'' = None" and "variablesPrototype c = ObjectPrototype"
    and "v = VUndefined \<or> (\<exists>x. v = VBool x) \<or> (\<exists>n. v = VNum n) \<or> (\<exists>t. v = VStr t)"
  shows "setVariable b c ''__proto__'' v = c"
  using assms
  by (auto simp: setVariable_def setProperty_def objectPrototypeProperty_def)

text \<open>The loop goes through the assignments in declaration order: an assignment is
  evaluated in the state the earlier ones have left, whatever the later ones are, and
  the assignment \<^verbatim>\<open>ctx.variables[name] = v\<close> is made before the later ones are
  evaluated.\<close>

lemma assignVariables_order:
  "assignVariables ex b (earlier @ (name, e) # later) s =
     (case evaluateExpression ex b e (assignVariables ex b earlier s) of
        (v, s') \<Rightarrow> assignVariables ex b later (s'\<lparr>ctx := setVariable b (ctx s') name v\<rparr>))"
proof (induction earlier arbitrary: s)
  case Nil
  show ?case by (simp split: prod.splits)
next
  case (Cons a earlier)
  obtain v s1 where h: "evaluateExpression ex b (snd a) s = (v, s1)" by force
  show ?case using Cons.IH h by simp
qed

text \<open>
  Claim C7.  A handler evaluates the assignments of its route in declaration order, each
  in the context the earlier ones have left, and assigns each result with
  \<^verbatim>\<open>ctx.variables[name] = v\<close> before it evaluates the next.  For the request
  \<^verbatim>\<open>GET /users/1\<close>, the route that assigns \<^verbatim>\<open>param(:id)\<close> to \<^verbatim>\<open>id\<close> and then \<^verbatim>\<open>var(--id)\<close>
  to \<^verbatim>\<open>copy\<close> returns \<^verbatim>\<open>'1'\<close>, and with the two assignments exchanged it returns
  \<^verbatim>\<open>undefined\<close>.  The assignment does not bind every name: with \<^verbatim>\<open>__proto__\<close> in
  the place of \<^verbatim>\<open>id\<close> the setter of \<^verbatim>\<open>Object.prototype\<close> takes the string and ignores it,
  no variable is bound, and the later assignment \<^verbatim>\<open>var(--__proto__)\<close> reads the prototype,
  an object with no keys, where the claim has it read the earlier result \<^verbatim>\<open>'1'\<close>.
\<close>

theorem assignment_to_proto_binds_nothing:
  "assignVariables ex b (earlier @ (name, e) # later) s =
     (case evaluateExpression ex b e (assignVariables ex b earlier s) of
        (v, s') \<Rightarrow> assignVariables ex b later (s'\<lparr>ctx := setVariable b (ctx s') name v\<rparr>)) \<and>
   res_body (fst (createHandler exampleDb exampleBuiltins
       (exampleRoute [(''id'', Param ''id''), (''copy'', Var ''id'')] ''copy'')
       exampleRequest (Some exampleRows))) = JsonBody (VStr ''1'') \<and>
   res_body (fst (createHandler exampleDb exampleBuiltins
       (exampleRoute [(''copy'', Var ''id''), (''id'', Param ''id'')] ''copy'')
       exampleRequest (Some exampleRows))) = JsonBody VUndefined \<and>
   parseExpression exampleBuiltins ''var(--__proto__)'' = Var ''__proto__'' \<and>
   res_body (fst (createHandler exampleDb exampleBuiltins
       (exampleRoute [(''__proto__'', Param ''id''), (''copy'', Var ''__proto__'')] ''copy'')
       exampleRequest (Some exampleRows))) = JsonBody (VObj []) \<and>
   variables (ctx (snd (createHandler exampleDb exampleBuiltins
       (exampleRoute [(''__proto__'', Param ''id''), (''copy'', Var ''__proto__'')] ''copy'')
       exampleRequest (Some exampleRows)))) ''__proto__'' = None \<and>
   variables (ctx (snd (createHandler exampleDb exampleBuiltins
       (exampleRoute [(''__proto__'', Param ''id''), (''copy'', Var ''__proto__'')] ''copy'')
       exampleRequest (Some exampleRows)))) ''copy'' = Some (VObj [])"
proof -
  have order: "assignVariables ex b (earlier @ (name, e) # later) s =
     (case evaluateExpression ex b e (assignVariables ex b earlier s) of
        (v, s') \<Rightarrow> assignVariables ex b later (s'\<lparr>ctx := setVariable b (ctx s') name v\<rparr>))"
    by (rule assignVariables_order)
  have forward: "res_body (fst (createHandler exampleDb exampleBuiltins
       (exampleRoute [(''id'', Param ''id''), (''copy'', Var ''id'')] ''copy'')
       exampleRequest (Some exampleRows))) = JsonBody (VStr ''1'')"
    by code_simp
  have backward: "res_body (fst (createHandler exampleDb exampleBuiltins
       (exampleRoute [(''copy'', Var ''id''), (''id'', Param ''id'')] ''copy'')
       exampleRequest (Some exampleRows))) = JsonBody VUndefined"
    by code_simp
  have parsed: "parseExpression exampleBuiltins ''var(--__proto__)'' = Var ''__proto__''"
    by code_simp
  have body: "res_body (fst (createHandler exampleDb exampleBuiltins
       (exampleRoute [(''__proto__'', Param ''id''), (''copy'', Var ''__proto__'')] ''copy'')
       exampleRequest (Some exampleRows))) = JsonBody (VObj [])"
    by code_simp
  have unbound: "variables (ctx (snd (createHandler exampleDb exampleBuiltins
       (exampleRoute [(''__proto__'', Param ''id''), (''copy'', Var ''__proto__'')] ''copy'')
       exampleRequest (Some exampleRows)))) ''__proto__'' = None"
    by code_simp
  have copy: "variables (ctx (snd (createHandler exampleDb exampleBuiltins
       (exampleRoute [(''__proto__'', Param ''id''), (''copy'', Var ''__proto__'')] ''copy'')
       exampleRequest (Some exampleRows)))) ''copy'' = Some (VObj [])"
    by code_simp
  from order forward backward parsed body unbound copy show ?thesis by blast
qed

text \<open>Evaluation writes to the database only: the context it is handed comes back as
  it was.\<close>

lemma evaluation_frame:
  "ctx (snd (evaluateExpression ex b e s)) = ctx s"
  "ctx (snd (evaluateAll ex b es s)) = ctx s"
  "ctx (snd (evaluateSql ex b q es s)) = ctx s"
  "ctx (snd (evaluateIf ex b branches elseValue s)) = ctx s"
proof (induction ex b e s and ex b es s and ex b q es s and ex b branches elseValue s
    rule: evaluateExpression_evaluateAll_evaluateSql_evaluateIf.induct)
  case (11 ex b parts s)
  then show ?case by (auto split: prod.splits)
next
  case (13 ex b x xs s)
  then show ?case by (auto split: prod.splits)
next
  case (14 ex b q args s)
  then show ?case by (auto split: option.splits prod.splits)
next
  case (15 ex b elseValue s)
  then show ?case by (simp split: option.splits)
qed simp_all


lemma setVariable_frame:
  "params (setVariable b c name v) = params c \<and>
   query (setVariable b c name v) = query c \<and>
   body (setVariable b c name v) = body c \<and>
   headers (setVariable b c name v) = headers c"
  by (simp add: setVariable_def split: prod.splits)

lemma assignVariables_frame:
  "params (ctx (assignVariables ex b vs s)) = params (ctx s) \<and>
   query (ctx (assignVariables ex b vs s)) = query (ctx s) \<and>
   body (ctx (assignVariables ex b vs s)) = body (ctx s) \<and>
   headers (ctx (assignVariables ex b vs s)) = headers (ctx s)"
proof (induction vs arbitrary: s)
  case Nil
  show ?case by simp
next
  case (Cons a vs)
  obtain v s1 where h: "evaluateExpression ex b (snd a) s = (v, s1)" by force
  have "ctx s1 = ctx s" using evaluation_frame(1) [of ex b "snd a" s] h by simp
  then show ?case using Cons.IH h by (simp add: setVariable_frame)
qed

lemma resolveStatus_frame: "ctx (snd (resolveStatus ex b status s)) = ctx s"
proof (cases status)
  case None
  then show ?thesis by (simp add: resolveStatus_def)
next
  case (Some sv)
  then show ?thesis
    using evaluation_frame(1) [of ex b _ s]
    by (cases sv) (auto simp: resolveStatus_def split: prod.splits, (metis snd_conv)+)
qed

text \<open>
  Claim C10.  Evaluating an expression, and with it a conditional or a statement, leaves
  the context unchanged: its parameters, query, body, headers and variables.  Evaluating
  a condition only reads the variables.  In a handler the context at the end is the one
  the assignment loop has left: the status and the return value do not change it.
\<close>

theorem evaluation_leaves_context_unchanged:
  "ctx (snd (evaluateExpression ex b e s)) = ctx s \<and>
   ctx (snd (evaluateIf ex b branches elseValue s)) = ctx s \<and>
   ctx (snd (evaluateSql ex b q args s)) = ctx s \<and>
   ctx (snd (createHandler ex b route req d)) =
     ctx (assignVariables ex b (route_variables route) (requestState b req d))"
proof -
  let ?s1 = "assignVariables ex b (route_variables route) (requestState b req d)"
  obtain status s2 where st: "resolveStatus ex b (route_status route) ?s1 = (status, s2)"
    by force
  obtain result s3 where re: "evaluateExpression ex b (snd (route_return route)) s2 = (result, s3)"
    by force
  have "ctx s2 = ctx ?s1" using resolveStatus_frame [of ex b "route_status route" ?s1] st by simp
  moreover have "ctx s3 = ctx s2"
    using evaluation_frame(1) [of ex b "snd (route_return route)" s2] re by simp
  moreover have "snd (createHandler ex b route req d) = s3"
    using st re by (simp add: createHandler_def requestState_def Let_def)
  ultimately have "ctx (snd (createHandler ex b route req d)) = ctx ?s1" by simp
  then show ?thesis
    using evaluation_frame(1) [of ex b e s] evaluation_frame(4) [of ex b branches elseValue s]
      evaluation_frame(3) [of ex b q args s]
    by blast
qed


theorem evaluation_leaves_context_unchanged_witness:
  "ctx (snd (evaluateExpression exampleDb exampleBuiltins
       (Sql ''INSERT INTO users (name) VALUES (?)'' [Param ''id'']) exampleState))
     = ctx exampleState"
  using evaluation_leaves_context_unchanged
          [of exampleDb exampleBuiltins
              "Sql ''INSERT INTO users (name) VALUES (?)'' [Param ''id'']" exampleState]
  by blast






section \<open>Properties of the parser\<close>

text \<open>A numeric literal is not empty, starts with a minus sign or a digit and ends with a
  digit: trimming leaves it as it is, and it is none of the function-call forms.\<close>

lemma trim_id:
  assumes "t \<noteq> []" and "\<not> isSpace (hd t)" and "\<not> isSpace (last t)"
  shows "trim t = t"
proof -
  have 1: "dropWhile isSpace t = t" using assms(1,2) by (cases t) simp_all
  have "rev t \<noteq> []" and "\<not> isSpace (hd (rev t))"
    using assms(1,3) by (simp_all add: hd_rev)
  then have "dropWhile isSpace (rev t) = rev t" by (cases "rev t") simp_all
  with 1 show ?thesis by (simp add: trim_def)
qed

lemma isDigit_not_space: "isDigit c \<Longrightarrow> \<not> isSpace c"
  by (auto simp: isDigit_def isSpace_def)

lemma numeric_shape:
  assumes "isNumericLiteral t"
  shows "t \<noteq> [] \<and> (hd t = CHR ''-'' \<or> isDigit (hd t)) \<and> isDigit (last t)"
proof -
  define r where "r = (if startsWith t ''-'' then drop 1 t else t)"
  have ip: "takeWhile isDigit r \<noteq> []"
    and rest: "(case dropWhile isDigit r of [] \<Rightarrow> True
               | c # fraction \<Rightarrow> c = CHR ''.'' \<and> fraction \<noteq> [] \<and> list_all isDigit fraction)"
    using assms unfolding isNumericLiteral_def r_def Let_def by simp_all
  from ip have r: "r \<noteq> []" and hr: "isDigit (hd r)"
    by (cases r; simp split: if_splits)+
  have lr: "isDigit (last r)"
  proof (cases "dropWhile isDigit r")
    case Nil
    then have "\<forall>c \<in> set r. isDigit c" by (simp add: dropWhile_eq_Nil_conv)
    with r show ?thesis by simp
  next
    case (Cons c fraction)
    with rest have f: "fraction \<noteq> []" "list_all isDigit fraction" by simp_all
    have "r = takeWhile isDigit r @ c # fraction" using Cons by (metis takeWhile_dropWhile_id)
    then have "last r = last fraction" using f(1) by (metis last_ConsR last_appendR list.distinct(1))
    with f show ?thesis by (simp add: list_all_iff)
  qed
  show ?thesis
  proof (cases "startsWith t ''-''")
    case True
    then have "take 1 t = ''-''" by (simp add: startsWith_def)
    then have t: "t = CHR ''-'' # r" unfolding r_def using True
      by (cases t) simp_all
    with r lr show ?thesis by simp
  next
    case False
    then have "t = r" by (simp add: r_def)
    with r hr lr show ?thesis by simp
  qed
qed

lemma numeric_no_call:
  assumes "hd t = CHR ''-'' \<or> isDigit (hd t)" and "t \<noteq> []"
  shows "\<not> startsWith t ''sql(''" "\<not> startsWith t ''param(''" "\<not> startsWith t ''query(''"
    "\<not> startsWith t ''body(''" "\<not> startsWith t ''header(''" "\<not> startsWith t ''var(''"
    "\<not> startsWith t ''if(''"
  using assms by (cases t; auto simp: startsWith_def isDigit_def)+

text \<open>On a numeric literal \<^verbatim>\<open>parseFloat\<close> finds a digit, and gives the double nearest to
  the decimal.\<close>

lemma parseFloat_numeric:
  "isNumericLiteral t \<Longrightarrow> parseFloat t = toDouble (decimalValue t)"
  by (simp add: isNumericLiteral_def parseFloat_def Let_def)

text \<open>The powers of two are positive, grow with the exponent and multiply as powers do.\<close>

lemma power2_positive: "0 < power2 e"
  by (simp add: power2_def)

text \<open>A rational that is a double is its own nearest double.\<close>

lemma toDouble_exact:
  assumes "isDouble q"
  shows "toDouble q = Finite q"
proof (cases "q = 0")
  case True
  then show ?thesis by (simp add: toDouble_def)
next
  case False
  define a where "a = \<bar>q\<bar>"
  define ulp where "ulp = power2 (max (floorLog2 a) (- 1022) - 52)"
  define x where "x = a / ulp"
  have ulp: "0 < ulp" unfolding ulp_def by (rule power2_positive)
  from assms False have whole: "of_int \<lfloor>x\<rfloor> = x" and bound: "a < power2 1024"
    unfolding isDouble_def a_def ulp_def x_def Let_def by simp_all
  have "x - of_int \<lfloor>x\<rfloor> = 0" by (simp only: whole diff_self)
  then have "roundHalfEven x = \<lfloor>x\<rfloor>"
    by (simp only: roundHalfEven_def Let_def) simp
  then have "of_int (roundHalfEven x) * ulp = x * ulp" by (simp only: whole)
  also have "x * ulp = a" unfolding x_def using ulp by simp
  finally have r: "of_int (roundHalfEven (a / ulp)) * ulp = a" unfolding x_def .
  have "toDouble q = Finite (if q < 0 then - a else a)"
    unfolding toDouble_def Let_def a_def [symmetric] ulp_def [symmetric] r
    using False bound by simp
  then show ?thesis unfolding a_def by (simp add: abs_if)
qed

text \<open>The number of binary digits of a positive integer.\<close>

lemma bitLength_bounds:
  "0 < n \<Longrightarrow> 2 ^ (bitLength n - 1) \<le> n \<and> n < 2 ^ bitLength n"
proof (induction n rule: bitLength.induct)
  case (1 n)
  show ?case
  proof (cases "n div 2 \<le> 0")
    case True
    with 1(2) have "n = 1" by linarith
    then show ?thesis by (simp add: bitLength.simps [of 1] bitLength.simps [of 0])
  next
    case False
    then have pos: "0 < n div 2" by simp
    have ih: "2 ^ (bitLength (n div 2) - 1) \<le> n div 2 \<and> n div 2 < 2 ^ bitLength (n div 2)"
      using 1(1) [OF _ pos] 1(2) by simp
    have bl: "bitLength n = Suc (bitLength (n div 2))"
      using 1(2) by (subst bitLength.simps) simp
    have k: "0 < bitLength (n div 2)"
      using pos by (subst bitLength.simps) simp
    then have "(2::int) ^ bitLength (n div 2) = 2 * 2 ^ (bitLength (n div 2) - 1)"
      by (cases "bitLength (n div 2)") simp_all
    with ih have lo: "(2::int) ^ bitLength (n div 2) \<le> n" by linarith
    from ih have hi: "n < 2 * 2 ^ bitLength (n div 2)" by linarith
    show ?thesis unfolding bl using lo hi by simp
  qed
qed


lemma bitLength_positive: "0 < n \<Longrightarrow> 0 < bitLength n"
  by (subst bitLength.simps) simp

lemma power2_nat: "power2 (int k) = 2 ^ k"
  by (simp add: power2_def)

lemma power2_neg: "power2 (- int k) = 1 / 2 ^ k"
  by (auto simp: power2_def)

text \<open>\<open>floorLog2\<close> gives the binary exponent.\<close>

lemma floorLog2_bounds:
  assumes "0 < a"
  shows "power2 (floorLog2 a) \<le> a \<and> a < power2 (floorLog2 a + 1)"
proof (cases "1 \<le> a")
  case True
  define n where "n = \<lfloor>a\<rfloor>"
  define k where "k = bitLength n"
  have n: "0 < n" using True unfolding n_def by simp
  have k: "0 < k" unfolding k_def using n by (rule bitLength_positive)
  have b: "2 ^ (k - 1) \<le> n" "n < 2 ^ k"
    using bitLength_bounds [OF n] unfolding k_def by simp_all
  have e: "floorLog2 a = int (k - 1)" "floorLog2 a + 1 = int k"
    using True k unfolding floorLog2_def n_def k_def by simp_all
  have "(of_int (2 ^ (k - 1)) :: rat) \<le> of_int n" using b(1) by (simp only: of_int_le_iff)
  also have "of_int n \<le> a" unfolding n_def by simp
  finally have lo: "2 ^ (k - 1) \<le> a" by simp
  have "a < of_int (n + 1)" unfolding n_def by linarith
  also have "(of_int (n + 1) :: rat) \<le> of_int (2 ^ k)"
  proof -
    have "n + 1 \<le> 2 ^ k" using b(2) by simp
    then show ?thesis by (simp only: of_int_le_iff)
  qed
  finally have hi: "a < 2 ^ k" by simp
  have "power2 (floorLog2 a) \<le> a" unfolding e(1) power2_nat using lo .
  moreover have "a < power2 (floorLog2 a + 1)" unfolding e(2) power2_nat using hi .
  ultimately show ?thesis ..
next
  case False
  define c where "c = \<lceil>1 / a\<rceil> - 1"
  define k where "k = bitLength c"
  have inv: "1 < 1 / a" using False assms by simp
  then have "1 < \<lceil>1 / a\<rceil>" by linarith
  then have c: "0 < c" unfolding c_def by simp
  have k: "0 < k" unfolding k_def using c by (rule bitLength_positive)
  have b: "2 ^ (k - 1) \<le> c" "c < 2 ^ k"
    using bitLength_bounds [OF c] unfolding k_def by simp_all
  have e: "floorLog2 a = - int k" "floorLog2 a + 1 = - int (k - 1)"
    using False k unfolding floorLog2_def c_def k_def by simp_all
  have "1 / a \<le> of_int (c + 1)" unfolding c_def by simp
  also have "(of_int (c + 1) :: rat) \<le> of_int (2 ^ k)"
  proof -
    have "c + 1 \<le> 2 ^ k" using b(2) by simp
    then show ?thesis by (simp only: of_int_le_iff)
  qed
  finally have "1 / a \<le> 2 ^ k" by simp
  then have lo: "1 / 2 ^ k \<le> a" using assms
    by (simp add: field_simps)
  have "(of_int (2 ^ (k - 1)) :: rat) \<le> of_int c" using b(1) by (simp only: of_int_le_iff)
  also have "of_int c < 1 / a" unfolding c_def by linarith
  finally have "2 ^ (k - 1) < 1 / a" by simp
  then have hi: "a < 1 / 2 ^ (k - 1)" using assms
    by (simp add: field_simps)
  have "power2 (floorLog2 a) \<le> a" unfolding e(1) power2_neg using lo .
  moreover have "a < power2 (floorLog2 a + 1)" unfolding e(2) power2_neg using hi .
  ultimately show ?thesis ..
qed

text \<open>Rounding moves a value by a half at most, keeps the integers and the order.\<close>

lemma roundHalfEven_near: "\<bar>of_int (roundHalfEven x) - x\<bar> \<le> 1 / 2"
proof -
  define f where "f = \<lfloor>x\<rfloor>"
  have "of_int f \<le> x" "x < of_int f + 1" unfolding f_def by linarith+
  then show ?thesis unfolding roundHalfEven_def Let_def f_def [symmetric]
    by (auto simp: abs_if)
qed

lemma roundHalfEven_whole: "roundHalfEven (of_int n) = n"
  by (simp add: roundHalfEven_def)

lemma roundHalfEven_mono: "of_int n \<le> x \<Longrightarrow> n \<le> roundHalfEven x"
proof -
  assume "of_int n \<le> x"
  then have "n \<le> \<lfloor>x\<rfloor>" by (simp add: le_floor_iff)
  moreover have "\<lfloor>x\<rfloor> \<le> roundHalfEven x" unfolding roundHalfEven_def Let_def by simp
  ultimately show ?thesis by simp
qed


lemma power2_powi: "power2 e = 2 powi e"
  by (simp add: power2_def power_int_def power_one_over)

text \<open>The double a rational is turned into lies within half the spacing of the doubles
  around the rational.\<close>

lemma toDouble_near:
  assumes "toDouble q = Finite r"
  shows "\<bar>r - q\<bar> \<le> power2 (max (floorLog2 \<bar>q\<bar>) (- 1022) - 52) / 2"
proof (cases "q = 0")
  case True
  with assms have "r = 0" by (simp add: toDouble_def)
  with True show ?thesis using power2_positive [of "max (floorLog2 0) (- 1022) - 52"] by simp
next
  case False
  define a where "a = \<bar>q\<bar>"
  define ulp where "ulp = power2 (max (floorLog2 a) (- 1022) - 52)"
  define m where "m = (of_int (roundHalfEven (a / ulp)) :: rat)"
  have ulp: "0 < ulp" unfolding ulp_def by (rule power2_positive)
  have "toDouble q =
     (if power2 1024 \<le> m * ulp then (if q < 0 then NegInf else PosInf)
      else Finite (if q < 0 then - (m * ulp) else m * ulp))"
    unfolding toDouble_def Let_def a_def [symmetric] ulp_def [symmetric] m_def [symmetric]
    using False by simp
  with assms have r: "r = (if q < 0 then - (m * ulp) else m * ulp)"
    by (simp split: if_splits)
  have "\<bar>r - q\<bar> = \<bar>m * ulp - a\<bar>" unfolding r a_def by (simp add: abs_if)
  also have "m * ulp - a = (m - a / ulp) * ulp" using ulp by (simp add: field_simps)
  also have "\<bar>(m - a / ulp) * ulp\<bar> = \<bar>m - a / ulp\<bar> * ulp"
    using ulp by (simp add: abs_mult)
  also have "\<dots> \<le> 1 / 2 * ulp"
    using roundHalfEven_near [of "a / ulp"] ulp unfolding m_def
    by (intro mult_right_mono) simp_all
  finally show ?thesis unfolding ulp_def a_def by simp
qed

text \<open>A rational of magnitude \<open>2 ^ 1024\<close> or more becomes an infinity.\<close>

lemma toDouble_overflow:
  assumes "power2 1024 \<le> \<bar>q\<bar>"
  shows "toDouble q = (if q < 0 then NegInf else PosInf)"
proof -
  define a where "a = \<bar>q\<bar>"
  define e where "e = floorLog2 a"
  define ulp where "ulp = power2 (max e (- 1022) - 52)"
  define m where "m = (of_int (roundHalfEven (a / ulp)) :: rat)"
  have big: "power2 1024 \<le> a" using assms unfolding a_def .
  have a: "0 < a" using big power2_positive [of 1024] by linarith
  then have q: "q \<noteq> 0" unfolding a_def by simp
  have b: "power2 e \<le> a" "a < power2 (e + 1)"
    using floorLog2_bounds [OF a] unfolding e_def by simp_all
  have less: "(2::rat) powi 1024 < 2 powi (e + 1)"
    using big b(2) unfolding power2_powi by linarith
  have "1024 < e + 1"
  proof (rule ccontr)
    assume "\<not> 1024 < e + 1"
    then have "e + 1 \<le> 1024" by simp
    then have "(2::rat) powi (e + 1) \<le> 2 powi 1024"
      by (intro power_int_increasing) simp_all
    with less show False by simp
  qed
  then have e: "1024 \<le> e" by simp
  then have u: "ulp = power2 (e - 52)" unfolding ulp_def by simp
  have ulp: "0 < ulp" unfolding ulp_def by (rule power2_positive)
  have split: "power2 e = of_int (2 ^ 52) * ulp"
    unfolding u power2_powi using power_int_add [of "2::rat" 52 "e - 52"] by simp
  then have "of_int (2 ^ 52) * ulp \<le> a" using b(1) by simp
  then have "of_int (2 ^ 52) \<le> a / ulp" using ulp by (simp add: field_simps)
  then have "2 ^ 52 \<le> roundHalfEven (a / ulp)" by (rule roundHalfEven_mono)
  then have "(of_int (2 ^ 52) :: rat) \<le> m" unfolding m_def by (simp only: of_int_le_iff)
  then have "of_int (2 ^ 52) * ulp \<le> m * ulp" using ulp by (intro mult_right_mono) simp_all
  then have "power2 e \<le> m * ulp" unfolding split .
  moreover have "power2 1024 \<le> power2 e"
    unfolding power2_powi using e by (intro power_int_increasing) simp_all
  ultimately have over: "power2 1024 \<le> m * ulp" by linarith
  show ?thesis
    unfolding toDouble_def Let_def a_def [symmetric] e_def [symmetric] ulp_def [symmetric]
      m_def [symmetric]
    using q over by simp
qed


lemma roundHalfEven_upper: "x \<le> of_int n \<Longrightarrow> roundHalfEven x \<le> n"
proof -
  assume x: "x \<le> of_int n"
  define f where "f = \<lfloor>x\<rfloor>"
  have f: "of_int f \<le> x" "x < of_int f + 1" unfolding f_def by linarith+
  have "f \<le> n" using x unfolding f_def by (simp add: floor_le_iff)
  show ?thesis
  proof (cases "f = n")
    case True
    with f x have "x - of_int f = 0" by simp
    then show ?thesis unfolding roundHalfEven_def Let_def f_def [symmetric] using True by simp
  next
    case False
    with \<open>f \<le> n\<close> have "f + 1 \<le> n" by simp
    then show ?thesis unfolding roundHalfEven_def Let_def f_def [symmetric] by simp
  qed
qed

lemma power2_mono: "x \<le> y \<Longrightarrow> power2 x \<le> power2 y"
  unfolding power2_powi by (intro power_int_increasing) simp_all

lemma power2_strict_mono: "x < y \<Longrightarrow> power2 x < power2 y"
  unfolding power2_powi by (intro power_int_strict_increasing) simp_all

lemma power2_split: "0 \<le> k \<Longrightarrow> power2 (x + k) = of_int (2 ^ nat k) * power2 x"
proof -
  assume k: "0 \<le> k"
  have "(2::rat) powi (x + k) = 2 powi k * 2 powi x"
    using power_int_add [of "2::rat" k x] by (simp add: add.commute)
  moreover have "(2::rat) powi k = 2 ^ nat k" using k by (simp add: power_int_def)
  ultimately show ?thesis unfolding power2_powi by simp
qed

text \<open>A finite result is a double.\<close>

lemma toDouble_isDouble:
  assumes "toDouble q = Finite r"
  shows "isDouble r"
proof (cases "r = 0")
  case True
  then show ?thesis by (simp add: isDouble_def)
next
  case False
  with assms have q: "q \<noteq> 0" by (auto simp: toDouble_def)
  define a where "a = \<bar>q\<bar>"
  define E where "E = max (floorLog2 a) (- 1022)"
  define ulp where "ulp = power2 (E - 52)"
  define m where "m = roundHalfEven (a / ulp)"
  have a: "0 < a" using q unfolding a_def by simp
  have ulp: "0 < ulp" unfolding ulp_def by (rule power2_positive)
  have "toDouble q =
     (if power2 1024 \<le> of_int m * ulp then (if q < 0 then NegInf else PosInf)
      else Finite (if q < 0 then - (of_int m * ulp) else of_int m * ulp))"
    unfolding toDouble_def Let_def a_def [symmetric] E_def [symmetric] ulp_def [symmetric]
      m_def [symmetric]
    using q by simp
  with assms have r: "r = (if q < 0 then - (of_int m * ulp) else of_int m * ulp)"
    and bound: "of_int m * ulp < power2 1024"
    by (simp_all split: if_splits)
  have "of_int 0 \<le> a / ulp" using a ulp by simp
  then have m0: "0 \<le> m" unfolding m_def by (rule roundHalfEven_mono)
  define a' where "a' = \<bar>r\<bar>"
  have a': "a' = of_int m * ulp" unfolding a'_def r using m0 ulp by (simp add: abs_mult)
  have pos: "0 < a'" using False unfolding a'_def by simp
  define e' where "e' = floorLog2 a'"
  define ulp' where "ulp' = power2 (max e' (- 1022) - 52)"
  have ulp': "0 < ulp'" unfolding ulp'_def by (rule power2_positive)
  have b': "power2 e' \<le> a'" "a' < power2 (e' + 1)"
    using floorLog2_bounds [OF pos] unfolding e'_def by simp_all
  have top: "power2 (E + 1) = of_int (2 ^ 53) * ulp"
    unfolding ulp_def using power2_split [of 53 "E - 52"] by (simp add: add.commute)
  have "a < power2 (floorLog2 a + 1)" using floorLog2_bounds [OF a] by simp
  also have "\<dots> \<le> power2 (E + 1)" unfolding E_def by (intro power2_mono) simp
  finally have "a \<le> of_int (2 ^ 53) * ulp" unfolding top by simp
  then have "a / ulp \<le> of_int (2 ^ 53)" using ulp by (simp add: field_simps)
  then have "m \<le> 2 ^ 53" unfolding m_def by (rule roundHalfEven_upper)
  then have "(of_int m :: rat) \<le> of_int (2 ^ 53)" by (simp only: of_int_le_iff)
  then have "of_int m * ulp \<le> of_int (2 ^ 53) * ulp" using ulp by (intro mult_right_mono) simp_all
  then have le: "a' \<le> power2 (E + 1)" unfolding a' top .
  have e'le: "e' \<le> E + 1"
  proof (rule ccontr)
    assume "\<not> e' \<le> E + 1"
    then have "E + 1 < e'" by simp
    then have "power2 (E + 1) < power2 e'" by (rule power2_strict_mono)
    with le b'(1) show False by simp
  qed
  have whole: "\<exists>k. a' / ulp' = of_int k"
  proof (cases "e' = E + 1")
    case True
    then have "a' = power2 (E + 1)" using le b'(1) by simp
    moreover have "E + 1 = (max e' (- 1022) - 52) + 52" using True unfolding E_def by simp
    ultimately have "a' = of_int (2 ^ 52) * ulp'"
      unfolding ulp'_def using power2_split [of 52 "max e' (- 1022) - 52"] by simp
    then have "a' / ulp' = of_int (2 ^ 52)" using ulp' by simp
    then show ?thesis ..
  next
    case False
    with e'le have "e' \<le> E" by simp
    then have d: "0 \<le> E - max e' (- 1022)" unfolding E_def by simp
    have "E - 52 = (max e' (- 1022) - 52) + (E - max e' (- 1022))" by simp
    then have "ulp = of_int (2 ^ nat (E - max e' (- 1022))) * ulp'"
      unfolding ulp_def ulp'_def
      using power2_split [OF d, of "max e' (- 1022) - 52"] by simp
    then have "a' / ulp' = of_int (m * 2 ^ nat (E - max e' (- 1022)))"
      unfolding a' using ulp' by simp
    then show ?thesis ..
  qed
  then obtain k where "a' / ulp' = of_int k" ..
  then have "of_int \<lfloor>a' / ulp'\<rfloor> = a' / ulp'" by simp
  moreover have "a' < power2 1024" using bound unfolding a' .
  ultimately show ?thesis
    unfolding isDouble_def Let_def a'_def [symmetric] e'_def [symmetric] ulp'_def [symmetric]
    by simp
qed

text \<open>A numeric literal parses to the literal of the number \<^verbatim>\<open>parseFloat\<close> reads, which
  evaluates to that number.\<close>

lemma numeric_literal_value:
  assumes n: "isNumericLiteral t"
  shows "evaluateExpression ex b (parseExpression b t) s = (VNum (toDouble (decimalValue t)), s)"
proof -
  from numeric_shape [OF n] have sh: "t \<noteq> []" "hd t = CHR ''-'' \<or> isDigit (hd t)" "isDigit (last t)"
    by simp_all
  have "\<not> isSpace (hd t)" using sh(2) isDigit_not_space by (auto simp: isSpace_def)
  moreover have "\<not> isSpace (last t)" using sh(3) by (rule isDigit_not_space)
  ultimately have tr: "trim t = t" using sh(1) by (simp add: trim_id)
  have "parseExpression b t = Literal (VNum (parseFloat t))"
    using numeric_no_call [OF sh(2) sh(1)] n tr by (simp add: Let_def)
  then show ?thesis using parseFloat_numeric [OF n] by simp
qed

text \<open>
  Claim C9, as the code has it.  Text that matches the numeric pattern parses to a
  literal that evaluates, in any context, to the double nearest to the decimal the text
  denotes, ties going to the even significand, and to an infinity when that is
  \<open>2 ^ 1024\<close> or more in magnitude; it is the decimal itself exactly when the decimal is a
  double.  The texts \<^verbatim>\<open>true\<close>, \<^verbatim>\<open>false\<close> and \<^verbatim>\<open>null\<close> evaluate to the two booleans and
  to \<^verbatim>\<open>null\<close>.
\<close>

theorem literal_round_trip:
  "(isNumericLiteral t \<longrightarrow>
      evaluateExpression ex b (parseExpression b t) s = (VNum (toDouble (decimalValue t)), s) \<and>
      (isDouble (decimalValue t) \<longrightarrow>
         evaluateExpression ex b (parseExpression b t) s = (VNum (Finite (decimalValue t)), s))) \<and>
   evaluateExpression ex b (parseExpression b ''true'') s = (VBool True, s) \<and>
   evaluateExpression ex b (parseExpression b ''false'') s = (VBool False, s) \<and>
   evaluateExpression ex b (parseExpression b ''null'') s = (VNull, s)"
proof (intro conjI impI)
  assume n: "isNumericLiteral t"
  show r: "evaluateExpression ex b (parseExpression b t) s = (VNum (toDouble (decimalValue t)), s)"
    using n by (rule numeric_literal_value)
  assume "isDouble (decimalValue t)"
  then show "evaluateExpression ex b (parseExpression b t) s = (VNum (Finite (decimalValue t)), s)"
    using r by (simp add: toDouble_exact)
next
  have "parseExpression b ''true'' = Literal (VBool True)" by code_simp
  then show "evaluateExpression ex b (parseExpression b ''true'') s = (VBool True, s)" by simp
next
  have "parseExpression b ''false'' = Literal (VBool False)" by code_simp
  then show "evaluateExpression ex b (parseExpression b ''false'') s = (VBool False, s)" by simp
next
  have "parseExpression b ''null'' = Literal VNull" by code_simp
  then show "evaluateExpression ex b (parseExpression b ''null'') s = (VNull, s)" by simp
qed

text \<open>The text \<^verbatim>\<open>-12.5\<close> denotes a double and gives the number -12.5.\<close>

theorem literal_round_trip_witness:
  "isNumericLiteral ''-12.5'' \<and> decimalValue ''-12.5'' = - 12.5 \<and> isDouble (- 12.5) \<and>
   evaluateExpression exampleDb exampleBuiltins (parseExpression exampleBuiltins ''-12.5'')
     exampleState = (VNum (Finite (- 12.5)), exampleState)"
proof -
  have n: "isNumericLiteral ''-12.5''" by code_simp
  have v: "decimalValue ''-12.5'' = - 12.5" by code_simp
  have d: "isDouble (decimalValue ''-12.5'')" by code_simp
  from literal_round_trip [of "''-12.5''" exampleDb exampleBuiltins exampleState] n d
  have "evaluateExpression exampleDb exampleBuiltins (parseExpression exampleBuiltins ''-12.5'')
     exampleState = (VNum (Finite (decimalValue ''-12.5'')), exampleState)"
    by blast
  then have r: "evaluateExpression exampleDb exampleBuiltins
     (parseExpression exampleBuiltins ''-12.5'') exampleState
       = (VNum (Finite (- 12.5)), exampleState)"
    unfolding v .
  have "isDouble (- 12.5)" using d unfolding v .
  with n v r show ?thesis by blast
qed

text \<open>As the claim is written, the value would be the decimal itself.  The text
  \<^verbatim>\<open>9007199254740993\<close> denotes \<open>2 ^ 53 + 1\<close>, which is no double, and evaluates to the
  number 9007199254740992; the text \<^verbatim>\<open>0.1\<close> evaluates to the double next to one tenth.\<close>

theorem literal_rounded_counterexample:
  "isNumericLiteral ''9007199254740993'' \<and>
   decimalValue ''9007199254740993'' = 9007199254740993 \<and>
   fst (evaluateExpression exampleDb exampleBuiltins
          (parseExpression exampleBuiltins ''9007199254740993'') exampleState)
     = VNum (Finite 9007199254740992) \<and>
   isNumericLiteral ''0.1'' \<and>
   decimalValue ''0.1'' = 1 / 10 \<and>
   fst (evaluateExpression exampleDb exampleBuiltins
          (parseExpression exampleBuiltins ''0.1'') exampleState)
     = VNum (Finite (3602879701896397 / 36028797018963968))"
  by code_simp

text \<open>The text of the digit 1 and 309 zeros denotes a number above \<open>2 ^ 1024\<close> and
  evaluates to \<^verbatim>\<open>Infinity\<close>.\<close>

lemma literal_overflow:
  "fst (evaluateExpression exampleDb exampleBuiltins
          (parseExpression exampleBuiltins
             ''1000000000000000000000000000000000000000000000000000000000000000000000000000000000000000000000000000000000000000000000000000000000000000000000000000000000000000000000000000000000000000000000000000000000000000000000000000000000000000000000000000000000000000000000000000000000000000000000000000000000000000000000'')
          exampleState) = VNum PosInf"
proof -
  let ?t = "''1000000000000000000000000000000000000000000000000000000000000000000000000000000000000000000000000000000000000000000000000000000000000000000000000000000000000000000000000000000000000000000000000000000000000000000000000000000000000000000000000000000000000000000000000000000000000000000000000000000000000000000000''"
  have n: "isNumericLiteral ?t" by code_simp
  have "power2 1024 \<le> \<bar>decimalValue ?t\<bar>" by code_simp
  then have "toDouble (decimalValue ?t) = (if decimalValue ?t < 0 then NegInf else PosInf)"
    by (rule toDouble_overflow)
  moreover have "\<not> decimalValue ?t < 0" by code_simp
  ultimately have "toDouble (decimalValue ?t) = PosInf" by simp
  moreover have "evaluateExpression exampleDb exampleBuiltins (parseExpression exampleBuiltins ?t)
      exampleState = (VNum (toDouble (decimalValue ?t)), exampleState)"
    using n by (rule numeric_literal_value)
  ultimately show ?thesis by simp
qed


text \<open>The loop of \<^verbatim>\<open>parseIfExpression\<close> assigns \<^verbatim>\<open>elseValue\<close> at every part that starts
  with \<^verbatim>\<open>else:\<close>, so the last such part decides.\<close>

lemma else_fold:
  fixes f :: "(condition \<times> expression) list \<times> expression option \<Rightarrow> string \<Rightarrow>
              (condition \<times> expression) list \<times> expression option"
  assumes step: "\<And>acc part. snd (f acc part) =
      (if startsWith (trim part) ''else:'' then Some (g part) else snd acc)"
  shows "snd (foldl f acc parts) =
     (case filter (\<lambda>part. startsWith (trim part) ''else:'') parts of
        [] \<Rightarrow> snd acc
      | e # es \<Rightarrow> Some (g (last (e # es))))"
proof (induction parts arbitrary: acc)
  case Nil
  show ?case by simp
next
  case (Cons part parts)
  show ?case
  proof (cases "startsWith (trim part) ''else:''")
    case True
    then show ?thesis
      using Cons.IH [of "f acc part"] step [of acc part]
      by (cases "filter (\<lambda>part. startsWith (trim part) ''else:'') parts") simp_all
  next
    case False
    then show ?thesis using Cons.IH [of "f acc part"] step [of acc part]
      by (simp split: list.splits)
  qed
qed

text \<open>
  Claim C5, as the code has it.  When the parts of the inner content of an
  \<^verbatim>\<open>if(...)\<close> contain one or more parts whose trimmed text starts with \<^verbatim>\<open>else:\<close>, the
  else expression of the conditional is the one parsed from the last such part; every
  earlier one is overwritten.  With no such part there is no else expression.
\<close>

theorem last_else_wins:
  "\<exists>branches.
     parseIfExpression b v =
       IfExpr branches
          (case filter (\<lambda>part. startsWith (trim part) ''else:'')
                  (splitIfBranches (extractFunctionContent v ''if'')) of
             [] \<Rightarrow> None
           | e # es \<Rightarrow> Some (parseExpression b (trim (sliceFrom (trim (last (e # es))) 5))))"
proof -
  define f where "f = (\<lambda>(acc :: (condition \<times> expression) list \<times> expression option) part.
                 if startsWith (trim part) ''else:'' then
                   (fst acc, Some (parseExpression b (trim (sliceFrom (trim part) 5))))
                 else
                   (let colonIndex = findColonInBranch part
                    in if colonIndex \<noteq> - 1 then
                         (fst acc @
                            [(parseCondition b (trim (slice part 0 colonIndex)),
                              parseExpression b (trim (sliceFrom part (colonIndex + 1))))],
                          snd acc)
                       else acc))"
  define parts where "parts = splitIfBranches (extractFunctionContent v ''if'')"
  have p: "parseIfExpression b v = IfExpr (fst (foldl f ([], None) parts)) (snd (foldl f ([], None) parts))"
    unfolding f_def parts_def by (simp add: Let_def)
  have "\<And>acc part. snd (f acc part) =
      (if startsWith (trim part) ''else:''
       then Some (parseExpression b (trim (sliceFrom (trim part) 5))) else snd acc)"
    unfolding f_def by (simp add: Let_def)
  from else_fold [of f "\<lambda>part. parseExpression b (trim (sliceFrom (trim part) 5))", OF this,
      of "([], None)" parts]
  have "snd (foldl f ([], None) parts) =
     (case filter (\<lambda>part. startsWith (trim part) ''else:'') parts of
        [] \<Rightarrow> None
      | e # es \<Rightarrow> Some (parseExpression b (trim (sliceFrom (trim (last (e # es))) 5))))"
    by (simp split: list.splits)
  with p show ?thesis unfolding parts_def by metis
qed

theorem last_else_wins_witness:
  "parseIfExpression exampleBuiltins ''if(--a: 1; else: 2; else: 3)'' =
     IfExpr [(Truthy ''a'', Literal (VNum (Finite 1)))] (Some (Literal (VNum (Finite 3))))"
proof -
  have parts: "filter (\<lambda>part. startsWith (trim part) ''else:'')
      (splitIfBranches (extractFunctionContent ''if(--a: 1; else: 2; else: 3)'' ''if''))
      = ['' else: 2'', '' else: 3'']"
    by code_simp
  have last: "parseExpression exampleBuiltins (trim (sliceFrom (trim '' else: 3'') 5))
      = Literal (VNum (Finite 3))"
    by code_simp
  from last_else_wins [of exampleBuiltins "''if(--a: 1; else: 2; else: 3)''"]
  obtain branches where
    r: "parseIfExpression exampleBuiltins ''if(--a: 1; else: 2; else: 3)'' =
          IfExpr branches (Some (Literal (VNum (Finite 3))))"
    unfolding parts using last by auto
  have "parseIfExpression exampleBuiltins ''if(--a: 1; else: 2; else: 3)'' =
     IfExpr [(Truthy ''a'', Literal (VNum (Finite 1)))] (Some (Literal (VNum (Finite 3))))"
    by code_simp
  with r show ?thesis by simp
qed

text \<open>As the claim is written, the first \<^verbatim>\<open>else:\<close> part would decide.  With the two
  parts \<^verbatim>\<open>else: 2\<close> and \<^verbatim>\<open>else: 3\<close> the else expression is the literal 3, not the literal
  2 of the first part.\<close>

theorem first_else_counterexample:
  "splitIfBranches (extractFunctionContent ''if(--a: 1; else: 2; else: 3)'' ''if'')
     = [''--a: 1'', '' else: 2'', '' else: 3''] \<and>
   parseExpression exampleBuiltins ''2'' = Literal (VNum (Finite 2)) \<and>
   parseIfExpression exampleBuiltins ''if(--a: 1; else: 2; else: 3)'' =
     IfExpr [(Truthy ''a'', Literal (VNum (Finite 1)))] (Some (Literal (VNum (Finite 3))))"
  by code_simp

text \<open>Where no quote occurs the scan of \<^verbatim>\<open>extractFunctionContent\<close> is the quote-aware
  one.\<close>

lemma findCloseQuoted_without_quotes:
  "\<forall>c \<in> set cs. \<not> isQuote c \<Longrightarrow> findCloseQuoted cs i depth False sc = findClose cs i depth"
  by (induction cs arbitrary: i depth) simp_all

lemma extractFunctionContent_without_quotes:
  assumes "\<forall>c \<in> set v. \<not> isQuote c"
  shows "extractFunctionContentQuoted v funcName = extractFunctionContent v funcName"
proof -
  have "\<forall>c \<in> set (drop n v). \<not> isQuote c" for n
    using assms by (meson in_set_dropD)
  then show ?thesis
    unfolding extractFunctionContentQuoted_def extractFunctionContent_def
    by (simp add: findCloseQuoted_without_quotes)
qed

text \<open>
  Claim C4.  \<^verbatim>\<open>extractFunctionContent\<close> counts every parenthesis, also one inside a quoted
  run, unlike the loops of \<^verbatim>\<open>parseFunctionArgs\<close>, \<^verbatim>\<open>splitIfBranches\<close> and
  \<^verbatim>\<open>findColonInBranch\<close>.  A closing parenthesis inside a string literal ends the
  extraction, where the quote-aware scan goes on to the matching parenthesis: the text of
  the literal is cut and the \<^verbatim>\<open>else:\<close> part is lost, and the markup of an \<^verbatim>\<open>html(...)\<close>
  return is cut in the same way.  \<^verbatim>\<open>splitIfBranches\<close> on a like text passes over the quoted
  separator.
\<close>

theorem extractFunctionContent_quoted_parenthesis:
  "extractFunctionContent ''if(--ok: 'done :)'; else: 0)'' ''if'' = ''--ok: 'done :'' \<and>
   extractFunctionContentQuoted ''if(--ok: 'done :)'; else: 0)'' ''if''
     = ''--ok: 'done :)'; else: 0'' \<and>
   parseExpression exampleBuiltins ''if(--ok: 'done :)'; else: 0)'' =
     IfExpr [(Truthy ''ok'', Literal (VStr ''done :''))] None \<and>
   parseReturnAtRule exampleBuiltins ''html('<p>:)</p>')'' = (ReturnHtml, Literal (VStr ''<p>:'')) \<and>
   splitIfBranches ''--ok: 'done ;)' ; else: 0'' = [''--ok: 'done ;)' '', '' else: 0'']"
  by code_simp

end
